theory Spec2Isabelle
  imports Complex_Main "HOL-Library.AList"
begin

section \<open>Strings and numbers as the JavaScript code uses them\<close>

text \<open>
  The front end formats natural numbers with \<^verbatim>\<open>String(n)\<close> and template literals, pads
  them with \<^verbatim>\<open>padStart(2, "0")\<close>, and reads them back with \<^verbatim>\<open>split(":").map(Number)\<close>.
  A string is a list of 8-bit characters, that is, of the code units U+0000 to U+00FF;
  text with other characters is outside this model. \<open>Number\<close> returns \<open>None\<close> where
  JavaScript yields \<^verbatim>\<open>NaN\<close> (only strings of decimal digits are read; the empty string
  is 0).
\<close>

definition digit_char :: "nat \<Rightarrow> char" where
  "digit_char d = ''0123456789'' ! d"

function string_of_nat :: "nat \<Rightarrow> string" where
  "string_of_nat n =
     (if n < 10 then [digit_char n] else string_of_nat (n div 10) @ [digit_char (n mod 10)])"
  by pat_completeness auto
termination
  by (relation "measure id") auto

declare string_of_nat.simps [simp del]

definition padStart2 :: "string \<Rightarrow> string" where
  "padStart2 s = replicate (2 - length s) CHR ''0'' @ s"

definition digit_val :: "char \<Rightarrow> nat option" where
  "digit_val c = map_of (zip ''0123456789'' [0, 1, 2, 3, 4, 5, 6, 7, 8, 9]) c"

fun digits_value :: "nat \<Rightarrow> string \<Rightarrow> nat option" where
  "digits_value acc [] = Some acc"
| "digits_value acc (c # cs) =
     (case digit_val c of None \<Rightarrow> None | Some d \<Rightarrow> digits_value (10 * acc + d) cs)"

definition Number :: "string \<Rightarrow> nat option" where
  "Number s = digits_value 0 s"

fun split_on :: "char \<Rightarrow> string \<Rightarrow> string list" where
  "split_on c [] = [[]]"
| "split_on c (x # xs) =
     (if x = c then [] # split_on c xs
      else (case split_on c xs of [] \<Rightarrow> [[x]] | w # ws \<Rightarrow> (x # w) # ws))"


text \<open>
  \<^verbatim>\<open>String.prototype.trim\<close> removes white space and line terminators from both ends. Among
  the code units up to U+00FF these are tab, line feed, vertical tab, form feed, carriage
  return, space and the no-break space U+00A0.
\<close>

definition is_space :: "char \<Rightarrow> bool" where
  "is_space c \<longleftrightarrow>
     c \<in> set [CHR 0x09, CHR 0x0A, CHR 0x0B, CHR 0x0C, CHR 0x0D, CHR 0x20, CHR 0xA0]"

definition trim :: "string \<Rightarrow> string" where
  "trim s = rev (dropWhile is_space (rev (dropWhile is_space s)))"


section \<open>Department configuration: generating the periods of a day\<close>

text \<open>
  \<^verbatim>\<open>DepartmentConfig.js\<close>. The template literal shared by \<open>formatTime\<close> and by both halves
  of \<open>formatTimeRange\<close>:
  \<^verbatim>\<open>`${hours % 12 || 12}:${String(minutes).padStart(2, "0")} ${hours >= 12 ? "PM" : "AM"}`\<close>
\<close>

definition format12 :: "nat \<Rightarrow> nat \<Rightarrow> string" where
  "format12 hours minutes =
     (let period = (if hours \<ge> 12 then ''PM'' else ''AM'');
          formattedHours = (if hours mod 12 = 0 then 12 else hours mod 12)
      in string_of_nat formattedHours @ '':'' @ padStart2 (string_of_nat minutes)
         @ '' '' @ period)"





text \<open>
  The form's state. The numeric fields hold what \<^verbatim>\<open>Number(e.target.value)\<close> gave for the
  text of a number input: a finite double, which is a rational number, not necessarily
  whole or positive (0 for the empty text). \<open>periods\<close> maps each day to its list of period
  labels, in the order the days were written.
\<close>

record config_form =
  departmentName :: string
  numPeriods :: rat
  startTime :: string
  classDuration :: rat
  periods :: "(string \<times> string list) list"
  error :: "string option"

definition days :: "string list" where
  "days = [''Mon'', ''Tue'', ''Wed'', ''Thu'', ''Fri'']"








text \<open>
  The wall-clock label of a moment given in minutes since midnight of the first day; the
  clock wraps every 1440 minutes.
\<close>

definition minute_of_day :: "nat \<Rightarrow> nat" where
  "minute_of_day t = t mod 1440"

definition clock :: "nat \<Rightarrow> string" where
  "clock t = format12 (minute_of_day t div 60) (minute_of_day t mod 60)"





section \<open>Department configuration: prerequisites of a generation request\<close>

text \<open>
  \<^verbatim>\<open>DepartmentConfig.js\<close>, \<open>validatePrerequisites\<close> and \<open>handleGenerateTimetable\<close>. The six
  lists the page fetches are the input; only the fields the check reads are kept. A field
  that is \<^verbatim>\<open>null\<close> or missing is \<open>None\<close> (for \<open>cfg_start_time\<close>: the empty string, which
  JavaScript also takes as false).
\<close>

record schedule_config =
  cfg_start_time :: string
  cfg_class_duration :: nat
  cfg_days :: "string list option"
  cfg_periods :: "string list option"

text \<open>
  A subject's \<open>batch\<close> member as JSON gives it: absent or \<^verbatim>\<open>null\<close> or \<^verbatim>\<open>false\<close>
  (\<open>NoBatch\<close>), a string, a number, or any other value (\<^verbatim>\<open>true\<close>, an array, an object),
  which JavaScript takes as true.
\<close>

datatype batch_ref = NoBatch | BatchName string | BatchNumber rat | BatchOther

record subject_row =
  subject_name :: string
  subject_batch :: batch_ref

record prerequisites =
  configs :: "schedule_config list"
  subjects :: "subject_row list"
  teachers :: "string list"
  classrooms :: "string list"
  batches :: "string list"
  assignments :: "string list"

text \<open>
  The issues, in the order the code pushes them. Their texts in the source:
  ``Department Configuration: Set up working days, periods, and times'',
  ``Batches: Add at least one batch (class)'', ``Subjects: Add at least one subject'',
  ``Subjects: n subjects need batch assignment'', ``Teachers: Add at least one teacher'',
  ``Teacher Assignments: Create teacher-subject-section assignments'',
  ``Classrooms: Add at least one classroom'', and, when a request fails,
  ``Unable to validate prerequisites. Please check your connection.''
\<close>

datatype issue =
    ConfigurationMissing
  | NoBatches
  | NoSubjects
  | SubjectsNeedBatch nat
  | NoTeachers
  | NoAssignments
  | NoClassrooms
  | UnableToValidate

text \<open>
  \<^verbatim>\<open>!configRes.data.length || !configRes.data[0].start_time ||
  !configRes.data[0].days?.length || !configRes.data[0].periods?.length\<close>
\<close>

definition config_missing :: "schedule_config list \<Rightarrow> bool" where
  "config_missing cs =
     (case cs of
        [] \<Rightarrow> True
      | c # _ \<Rightarrow> cfg_start_time c = [] \<or> cfg_days c \<in> {None, Some []}
                 \<or> cfg_periods c \<in> {None, Some []})"

text \<open>\<^verbatim>\<open>!s.batch || (typeof s.batch === 'string' && s.batch.trim() === '')\<close>\<close>

definition without_batch :: "subject_row \<Rightarrow> bool" where
  "without_batch s =
     (case subject_batch s of
        NoBatch \<Rightarrow> True
      | BatchName b \<Rightarrow> b = [] \<or> trim b = []
      | BatchNumber k \<Rightarrow> k = 0
      | BatchOther \<Rightarrow> False)"

text \<open>
  \<open>validatePrerequisites\<close>. The argument is \<open>None\<close> when one of the six requests failed
  (the \<^verbatim>\<open>catch\<close> branch).
\<close>

definition validatePrerequisites :: "prerequisites option \<Rightarrow> issue list" where
  "validatePrerequisites fetched =
     (case fetched of
        None \<Rightarrow> [UnableToValidate]
      | Some d \<Rightarrow>
          (if config_missing (configs d) then [ConfigurationMissing] else []) @
          (if batches d = [] then [NoBatches] else []) @
          (if subjects d = [] then [NoSubjects]
           else (let subjectsWithoutBatch = filter without_batch (subjects d)
                 in if length subjectsWithoutBatch > 0
                    then [SubjectsNeedBatch (length subjectsWithoutBatch)] else [])) @
          (if teachers d = [] then [NoTeachers] else []) @
          (if assignments d = [] then [NoAssignments] else []) @
          (if classrooms d = [] then [NoClassrooms] else []))"

text \<open>
  What the page shows after a click on ``Generate'': the banner texts are kept as values.
  \<open>FixIssues\<close> is the list ``Please fix the following issues before generating
  timetables'' with one bullet per issue; \<open>GenerationFailed\<close> stands for the text that
  \<open>handleTimetableError\<close> derives from a failed request.
\<close>

datatype banner =
    FixIssues "issue list"
  | GenerationFailed string
  | GeneratedEntries "nat option"

record generate_panel =
  genLoading :: bool
  genError :: "banner option"
  genSuccess :: "banner option"

datatype request = GET string | POST string

definition prerequisite_requests :: "request list" where
  "prerequisite_requests =
     [GET ''/api/timetable/schedule-configs/'', GET ''/api/timetable/subjects/'',
      GET ''/api/timetable/teachers/'', GET ''/api/timetable/classrooms/'',
      GET ''/api/timetable/batches/'', GET ''/api/timetable/teacher-assignments/'']"

definition generate_request :: request where
  "generate_request = POST ''/api/timetable/generate-timetable/''"

text \<open>
  The answer to the generate request: a failure with the server's error text, or a body
  with its \<open>message\<close> and \<open>entries_count\<close>.
\<close>

datatype generate_response =
    RequestFailed string
  | Body string "nat option"

text \<open>
  \<open>handleGenerateTimetable\<close>: the panel after the handler has run, and the requests it
  sent, in order. The generate request is sent only on the path where the issue list is
  empty.
\<close>

definition handleGenerateTimetable ::
    "prerequisites option \<Rightarrow> generate_response \<Rightarrow> generate_panel \<times> request list" where
  "handleGenerateTimetable fetched response =
     (let validationIssues = validatePrerequisites fetched in
      if length validationIssues > 0
      then (\<lparr>genLoading = False, genError = Some (FixIssues validationIssues),
             genSuccess = None\<rparr>,
            prerequisite_requests)
      else
        (case response of
           Body msg entries_count \<Rightarrow>
             if msg = ''Timetable generated successfully''
             then (\<lparr>genLoading = False, genError = None,
                    genSuccess = Some (GeneratedEntries entries_count)\<rparr>,
                   prerequisite_requests @ [generate_request])
             else (\<lparr>genLoading = False,
                    genError = Some (GenerationFailed ''Failed to generate timetable''),
                    genSuccess = None\<rparr>,
                   prerequisite_requests @ [generate_request])
         | RequestFailed err \<Rightarrow>
             (\<lparr>genLoading = False, genError = Some (GenerationFailed err), genSuccess = None\<rparr>,
              prerequisite_requests @ [generate_request])))"

text \<open>A department with subjects, a batch and a classroom, but no schedule configuration,
  no teacher and no assignment.\<close>

definition no_configuration :: prerequisites where
  "no_configuration =
     \<lparr>configs = [],
      subjects = [\<lparr>subject_name = ''DBS'', subject_batch = BatchName ''24SW''\<rparr>],
      teachers = [], classrooms = [''Lab-1''], batches = [''24SW''], assignments = []\<rparr>"

section \<open>The timetable page: moving an entry\<close>

text \<open>
  \<^verbatim>\<open>Timetable.js\<close>. An entry as the page receives it from \<^verbatim>\<open>/api/timetable/latest/\<close>; the
  PDF export reads the same objects. \<open>entry_id\<close> and \<open>credits\<close> are \<open>None\<close> when the member
  is missing.
\<close>

record entry =
  entry_id :: "nat option"
  day :: string
  period :: nat
  subject :: string
  subject_short_name :: string
  subject_code :: string
  teacher :: string
  classroom :: string
  class_group :: string
  is_practical :: bool
  is_extra_class :: bool
  credits :: "nat option"

record timetable_data =
  entries :: "entry list"
  tt_days :: "string list"
  tt_timeSlots :: "string list"

datatype message_type = Success | Error | Info

text \<open>
  The state of the page that the two move handlers read and write. \<open>moveUIForEntry\<close> is
  \<open>None\<close> for \<^verbatim>\<open>null\<close> and otherwise holds the \<open>id\<close> member of an entry; \<open>movePeriod\<close> is
  \<open>None\<close> for the initial empty string.
\<close>

record timetable_page =
  timetableData :: "timetable_data option"
  editMode :: bool
  draggingEntry :: "entry option"
  message :: "(message_type \<times> string) option"
  moveUIForEntry :: "nat option option"
  moveDay :: string
  movePeriod :: "nat option"

text \<open>
  The outcome of an awaited request: its data, or the rejection \<open>err\<close> with the HTTP status
  \<^verbatim>\<open>err.response?.status\<close> (\<open>None\<close> when there was no response at all), the \<open>detail\<close> member
  \<^verbatim>\<open>err.response?.data?.detail\<close> of the error body (\<open>None\<close> when the body has none) and the
  text \<^verbatim>\<open>err.message\<close>.
\<close>

datatype 'a outcome = Resolved 'a | Rejected "nat option" "string option" string

text \<open>\<^verbatim>\<open>!entryId\<close> is false: the \<open>id\<close> member is there and is not 0.\<close>

definition has_id :: "nat option \<Rightarrow> bool" where
  "has_id i \<longleftrightarrow> (case i of None \<Rightarrow> False | Some n \<Rightarrow> n \<noteq> 0)"

text \<open>\<^verbatim>\<open>entries.findIndex(en => en.id === id)\<close>, \<open>None\<close> for \<^verbatim>\<open>-1\<close>.\<close>

fun findIndex :: "('a \<Rightarrow> bool) \<Rightarrow> 'a list \<Rightarrow> nat option" where
  "findIndex P [] = None"
| "findIndex P (x # xs) =
     (if P x then Some 0 else map_option Suc (findIndex P xs))"

text \<open>
  The updater passed to \<open>setTimetableData\<close> after a successful move:
  \<^verbatim>\<open>prev => { if (!prev) return prev; ...; if (idx !== -1) updated.entries[idx] =
  { ...updated.entries[idx], day, period: index + 1 }; return updated; }\<close>
\<close>

definition move_in_view ::
    "nat option \<Rightarrow> string \<Rightarrow> nat \<Rightarrow> timetable_data option \<Rightarrow> timetable_data option" where
  "move_in_view dragged_id d p prev =
     (case prev of
        None \<Rightarrow> None
      | Some data \<Rightarrow>
          (case findIndex (\<lambda>en. entry_id en = dragged_id) (entries data) of
             None \<Rightarrow> Some data
           | Some idx \<Rightarrow>
               Some (data\<lparr>entries := (entries data)[idx := (entries data ! idx)\<lparr>day := d, period := p\<rparr>]\<rparr>)))"

text \<open>\<^verbatim>\<open>err.response?.data?.detail || 'Move failed due to constraints'\<close>\<close>

definition move_failure_text :: "string option \<Rightarrow> string" where
  "move_failure_text detail =
     (case detail of
        None \<Rightarrow> ''Move failed due to constraints''
      | Some text \<Rightarrow> if text = [] then ''Move failed due to constraints'' else text)"

text \<open>The \<^verbatim>\<open>catch\<close> block of \<open>onDrop\<close>: a 401 is left to the interceptor, silently.\<close>

definition move_catch :: "nat option \<Rightarrow> string option \<Rightarrow> timetable_page \<Rightarrow> timetable_page" where
  "move_catch status detail st =
     (if status = Some 401 then st
      else st\<lparr>message := Some (Error, move_failure_text detail)\<rparr>)"

text \<open>
  \<open>onDrop\<close> on the cell of \<open>day\<close> and row \<open>index\<close>: the page after the handler has run (the
  timers that clear the message later are left out). \<open>moved\<close> is the outcome of
  \<^verbatim>\<open>POST /api/timetable/slots/<id>/move/\<close>, \<open>latest\<close> that of the refresh that follows a
  successful move.
\<close>

definition onDrop ::
    "string \<Rightarrow> nat \<Rightarrow> unit outcome \<Rightarrow> timetable_data outcome \<Rightarrow> timetable_page \<Rightarrow> timetable_page" where
  "onDrop d index moved latest st =
     (case draggingEntry st of
        None \<Rightarrow> st
      | Some dragged \<Rightarrow>
          if \<not> editMode st then st
          else
            (case moved of
               Rejected status detail _ \<Rightarrow> move_catch status detail st
             | Resolved _ \<Rightarrow>
                 (let st1 = st\<lparr>timetableData :=
                              move_in_view (entry_id dragged) d (index + 1) (timetableData st)\<rparr>
                  in case latest of
                       Rejected status detail _ \<Rightarrow> move_catch status detail st1
                     | Resolved data \<Rightarrow>
                         st1\<lparr>timetableData := Some data,
                             message := Some (Success, ''Slot moved successfully'')\<rparr>))
            \<lparr>draggingEntry := None\<rparr>)"


text \<open>
  The second way to move an entry: the button of a safe slot \<open>s\<close> under the entry of a cell.
  Its \<^verbatim>\<open>catch\<close> block: \<^verbatim>\<open>err.response?.data?.detail || err.message || 'Move failed'\<close>; a 401
  is left to the interceptor, silently.
\<close>

definition safe_move_failure_text :: "string option \<Rightarrow> string \<Rightarrow> string" where
  "safe_move_failure_text detail err_message =
     (case detail of
        Some text \<Rightarrow>
          if text \<noteq> [] then text
          else if err_message \<noteq> [] then err_message else ''Move failed''
      | None \<Rightarrow> if err_message \<noteq> [] then err_message else ''Move failed'')"

definition safe_move_catch ::
    "nat option \<Rightarrow> string option \<Rightarrow> string \<Rightarrow> timetable_page \<Rightarrow> timetable_page" where
  "safe_move_catch status detail err_message st =
     (if status = Some 401 then st
      else st\<lparr>message := Some (Error, safe_move_failure_text detail err_message)\<rparr>)"

text \<open>
  \<^verbatim>\<open>(latest.data.entries || []).find(e => e.day?.toUpperCase().substring(0,3) ===
  entry.day?.toUpperCase().substring(0,3) && e.period === entry.period)\<close>.
  \<open>toUpperCase\<close> is the parameter \<open>upper\<close>.
\<close>

definition find_refreshed :: "(string \<Rightarrow> string) \<Rightarrow> entry \<Rightarrow> entry list \<Rightarrow> entry option" where
  "find_refreshed upper en es =
     List.find (\<lambda>e. take 3 (upper (day e)) = take 3 (upper (day en)) \<and> period e = period en) es"

text \<open>
  The part of the click handler from the move request on, for the entry id it has settled
  on. \<open>moved\<close> is the outcome of \<^verbatim>\<open>POST /api/timetable/slots/<id>/move/\<close>, \<open>latest\<close> that of
  the refresh that follows a successful move.
\<close>

definition safe_move_request ::
    "nat option \<Rightarrow> string \<Rightarrow> nat \<Rightarrow> unit outcome \<Rightarrow> timetable_data outcome
      \<Rightarrow> timetable_page \<Rightarrow> timetable_page" where
  "safe_move_request entryId s_day s_period moved latest st =
     (if \<not> has_id entryId then safe_move_catch None None ''Missing entry id'' st
      else
        (case moved of
           Rejected status detail err_message \<Rightarrow> safe_move_catch status detail err_message st
         | Resolved _ \<Rightarrow>
             (let st1 = st\<lparr>timetableData := move_in_view entryId s_day s_period (timetableData st)\<rparr>
              in case latest of
                   Rejected status detail err_message \<Rightarrow>
                     safe_move_catch status detail err_message st1
                 | Resolved data \<Rightarrow>
                     st1\<lparr>timetableData := Some data, moveUIForEntry := None,
                         message := Some (Success, ''Moved to '' @ s_day @ '', period ''
                                            @ string_of_nat s_period)\<rparr>)))"

text \<open>
  The click handler of the button of the safe slot \<open>(s_day, s_period)\<close> under the entry
  \<open>en\<close>: the page after the handler has run (the timer that clears the message later is
  left out). When the entry has no id, the timetable is fetched first (\<open>refreshed\<close> is the
  outcome of that request), it replaces the timetable of the page, and the id is taken from
  the entry found there at the same day and period.
\<close>

definition onSafeSlotClick ::
    "(string \<Rightarrow> string) \<Rightarrow> string \<Rightarrow> nat \<Rightarrow> entry \<Rightarrow> timetable_data outcome \<Rightarrow> unit outcome
      \<Rightarrow> timetable_data outcome \<Rightarrow> timetable_page \<Rightarrow> timetable_page" where
  "onSafeSlotClick upper s_day s_period en refreshed moved latest st =
     (let st0 = st\<lparr>moveDay := s_day, movePeriod := Some s_period,
                    message := Some (Info, ''Moving to '' @ s_day @ [CHR '' '', CHR 0xB7, CHR '' '', CHR ''P'']
                                       @ string_of_nat s_period @ ''...'')\<rparr>
      in if has_id (entry_id en)
         then safe_move_request (entry_id en) s_day s_period moved latest st0
         else
           (case refreshed of
              Rejected status detail err_message \<Rightarrow> safe_move_catch status detail err_message st0
            | Resolved data \<Rightarrow>
                safe_move_request
                  (case find_refreshed upper en (entries data) of
                     None \<Rightarrow> None
                   | Some e \<Rightarrow> entry_id e)
                  s_day s_period moved latest (st0\<lparr>timetableData := Some data\<rparr>)))"

text \<open>A page in edit mode that shows one entry, on Monday in period 1, which is being
  dragged; and the same entry without its \<open>id\<close> member.\<close>

definition dbs_monday :: entry where
  "dbs_monday =
     \<lparr>entry_id = Some 7, day = ''Mon'', period = 1, subject = ''DBS'', subject_short_name = ''DBS'',
      subject_code = ''SW215'', teacher = ''T1'', classroom = ''R1'', class_group = ''24SW-A'',
      is_practical = False, is_extra_class = False, credits = Some 3\<rparr>"

definition one_entry_page :: timetable_page where
  "one_entry_page =
     \<lparr>timetableData = Some \<lparr>entries = [dbs_monday], tt_days = [''Mon'', ''Tue''],
                              tt_timeSlots = [''8:00 AM - 9:00 AM'']\<rparr>,
      editMode = True, draggingEntry = Some dbs_monday, message = None,
      moveUIForEntry = Some (Some 7), moveDay = ''Mon'', movePeriod = Some 1\<rparr>"

definition refreshed_timetable :: timetable_data where
  "refreshed_timetable =
     \<lparr>entries = [dbs_monday\<lparr>teacher := ''T9''\<rparr>], tt_days = [''Mon'', ''Tue''],
      tt_timeSlots = [''8:00 AM - 9:00 AM'']\<rparr>"

section \<open>The PDF export: the Subject and Teacher Details table\<close>




























section \<open>The teacher form: saving and loading unavailable periods\<close>

text \<open>
  The add-teacher page (\<open>generateTimeSlots\<close>, \<open>convertAvailability\<close>, and the conversion in
  \<open>fetchTeacher\<close>). The start time is the server's text \<^verbatim>\<open>HH:MM:SS\<close> (or \<^verbatim>\<open>HH:MM\<close>);
  \<^verbatim>\<open>new Date(`2000-01-01T${config.start_time}`)\<close> reads it as a local time of day, here the
  number of minutes after midnight. Any other text is taken as an invalid date.
\<close>

definition two_digits :: "string \<Rightarrow> nat option" where
  "two_digits s = (if length s = 2 then Number s else None)"

definition time_of_day :: "string \<Rightarrow> nat option" where
  "time_of_day s =
     (case map two_digits (split_on CHR '':'' s) of
        [Some h, Some m] \<Rightarrow> if h < 24 \<and> m < 60 then Some (60 * h + m) else None
      | [Some h, Some m, Some sec] \<Rightarrow>
          if h < 24 \<and> m < 60 \<and> sec < 60 then Some (60 * h + m) else None
      | _ \<Rightarrow> None)"

text \<open>
  The loop body of \<open>generateTimeSlots\<close>. \<open>currentTime\<close> is a date that
  \<^verbatim>\<open>setMinutes(getMinutes() + class_duration)\<close> moves forward; its
  \<^verbatim>\<open>toLocaleTimeString('en-US', {hour: 'numeric', minute: '2-digit', hour12: true})\<close> is the
  12-hour clock reading \<open>clock\<close> (no clock change of the local zone is assumed in the days
  after 2000-01-01 that the periods cover).
\<close>

fun slot_labels :: "nat \<Rightarrow> nat \<Rightarrow> nat \<Rightarrow> string list" where
  "slot_labels 0 currentTime duration = []"
| "slot_labels (Suc k) currentTime duration =
     (clock currentTime @ '' - '' @ clock (currentTime + duration))
       # slot_labels k (currentTime + duration) duration"

text \<open>The list \<open>timeSlots[day]\<close>, the same for every day.\<close>

definition day_slots :: "schedule_config \<Rightarrow> string list" where
  "day_slots c =
     (let n = (case cfg_periods c of None \<Rightarrow> 0 | Some ps \<Rightarrow> length ps) in
      case time_of_day (cfg_start_time c) of
        None \<Rightarrow> replicate n ''Invalid Date - Invalid Date''
      | Some t \<Rightarrow> slot_labels n t (cfg_class_duration c))"

definition config_days :: "schedule_config \<Rightarrow> string list" where
  "config_days c = (case cfg_days c of None \<Rightarrow> days | Some ds \<Rightarrow> ds)"

definition generateTimeSlots :: "schedule_config option \<Rightarrow> (string \<times> string list) list" where
  "generateTimeSlots config =
     (case config of
        None \<Rightarrow> []
      | Some c \<Rightarrow>
          if cfg_start_time c = [] \<or> cfg_class_duration c = 0 \<or> cfg_periods c = None then []
          else map (\<lambda>d. (d, day_slots c)) (config_days c))"

text \<open>
  The page's \<open>availabilityState\<close>, \<^verbatim>\<open>{ day: { periodIndex: mode } }\<close>, as association lists.
  \<^verbatim>\<open>Object.entries\<close> lists the days in insertion order and the period indices of a day in
  ascending order.
\<close>

type_synonym availability = "(string \<times> (nat \<times> string) list) list"

text \<open>\<^verbatim>\<open>if (!result[day]) result[day] = []; result[day].push(time)\<close>\<close>

definition push_time :: "string \<Rightarrow> string \<Rightarrow> (string \<times> string list) list \<Rightarrow> (string \<times> string list) list" where
  "push_time d time result =
     AList.update d (case map_of result d of None \<Rightarrow> [time] | Some ts \<Rightarrow> ts @ [time]) result"

definition convert_cell ::
    "(string \<times> string list) list \<Rightarrow> string \<Rightarrow> (string \<times> string list) list \<Rightarrow> nat \<times> string
      \<Rightarrow> (string \<times> string list) list" where
  "convert_cell timeSlots d result cell =
     (case cell of (periodIndex, cellMode) \<Rightarrow>
        (let dayPeriods = (case map_of timeSlots d of None \<Rightarrow> [] | Some ps \<Rightarrow> ps) in
         if periodIndex < length dayPeriods \<and> dayPeriods ! periodIndex \<noteq> []
         then push_time d (dayPeriods ! periodIndex) result
         else result))"

definition convertAvailability ::
    "schedule_config option \<Rightarrow> availability \<Rightarrow> (string \<times> string list) list" where
  "convertAvailability timetableConfig availabilityState =
     (case timetableConfig of
        None \<Rightarrow> []
      | Some c \<Rightarrow>
          (let timeSlots = generateTimeSlots timetableConfig in
           foldl (\<lambda>result (d, periodsObj).
                    foldl (convert_cell timeSlots d) result (sort_key fst periodsObj))
             [] availabilityState))"

text \<open>
  The conversion in \<open>fetchTeacher\<close>. Its argument is the \<open>mandatory\<close> member of the stored
  \<open>unavailable_periods\<close>, \<open>None\<close> when there is none.
  \<^verbatim>\<open>const periodIndex = timeSlots[day]?.findIndex(p => p === time);
  if (periodIndex !== -1 && periodIndex !== undefined) newState[day][periodIndex] = 'mandatory';\<close>
\<close>

definition load_time ::
    "(string \<times> string list) list \<Rightarrow> string \<Rightarrow> (nat \<times> string) list \<Rightarrow> string \<Rightarrow> (nat \<times> string) list" where
  "load_time timeSlots d dayState time =
     (case map_of timeSlots d of
        None \<Rightarrow> dayState
      | Some ps \<Rightarrow>
          (case findIndex (\<lambda>p. p = time) ps of
             None \<Rightarrow> dayState
           | Some periodIndex \<Rightarrow> AList.update periodIndex ''mandatory'' dayState))"

definition loadAvailability ::
    "schedule_config option \<Rightarrow> (string \<times> string list) list option \<Rightarrow> availability" where
  "loadAvailability timetableConfig unavailable =
     (case unavailable of
        None \<Rightarrow> []
      | Some dayData \<Rightarrow>
          (let timeSlots = generateTimeSlots timetableConfig in
           foldl (\<lambda>newState (d, times).
                    AList.update d
                      (foldl (load_time timeSlots d)
                         (case map_of newState d of None \<Rightarrow> [] | Some dayState \<Rightarrow> dayState) times)
                      newState)
             [] dayData))"

text \<open>The cells of a state that are marked, as (day, period index) pairs.\<close>

definition selected :: "availability \<Rightarrow> (string \<times> nat) list" where
  "selected st = concat (map (\<lambda>(d, periodsObj). map (\<lambda>(i, m). (d, i)) periodsObj) st)"

text \<open>What \<open>handleSubmit\<close> stores: \<^verbatim>\<open>unavailable_periods: { mandatory: availability }\<close>.\<close>

definition saved_periods ::
    "schedule_config option \<Rightarrow> availability \<Rightarrow> (string \<times> string list) list option" where
  "saved_periods timetableConfig st = Some (convertAvailability timetableConfig st)"

text \<open>
  Two readings used in the proofs: the (day, time) pairs of a stored object and the
  (day, period index) pairs of a state, both through \<open>map_of\<close>, that is, as JavaScript
  looks a member up.
\<close>

definition stored_times :: "(string \<times> string list) list \<Rightarrow> (string \<times> string) set" where
  "stored_times al = {(d, t). \<exists>ts. map_of al d = Some ts \<and> t \<in> set ts}"

definition marks :: "availability \<Rightarrow> (string \<times> nat) set" where
  "marks st = {(d, i). \<exists>ps. map_of st d = Some ps \<and> i \<in> fst ` set ps}"

text \<open>The period index the loader finds for a stored time of a day.\<close>

definition index_of_time :: "(string \<times> string list) list \<Rightarrow> string \<Rightarrow> string \<Rightarrow> nat option" where
  "index_of_time timeSlots d time =
     (case map_of timeSlots d of
        None \<Rightarrow> None
      | Some ps \<Rightarrow> findIndex (\<lambda>p. p = time) ps)"

text \<open>The time the saver finds for a period index of a day.\<close>

definition time_of_index :: "(string \<times> string list) list \<Rightarrow> string \<Rightarrow> nat \<Rightarrow> string option" where
  "time_of_index timeSlots d i =
     (let dayPeriods = (case map_of timeSlots d of None \<Rightarrow> [] | Some ps \<Rightarrow> ps) in
      if i < length dayPeriods \<and> dayPeriods ! i \<noteq> [] then Some (dayPeriods ! i) else None)"

text \<open>What the loader maintains: days and period indices are object keys (no key twice),
  and every stored mode is \<open>mandatory\<close>.\<close>

definition day_state_ok :: "(nat \<times> string) list \<Rightarrow> bool" where
  "day_state_ok ds \<longleftrightarrow> distinct (map fst ds) \<and> snd ` set ds \<subseteq> {''mandatory''}"

definition state_ok :: "availability \<Rightarrow> bool" where
  "state_ok ns \<longleftrightarrow> distinct (map fst ns) \<and> (\<forall>(d, ds) \<in> set ns. day_state_ok ds)"

text \<open>Sample configurations: three periods of one hour from 08:00, and three periods of
  twelve hours from 08:00 (the third period has the label of the first).\<close>

definition hourly_config :: schedule_config where
  "hourly_config = \<lparr>cfg_start_time = ''08:00:00'', cfg_class_duration = 60,
     cfg_days = Some [''Mon'', ''Tue''], cfg_periods = Some [''1'', ''2'', ''3'']\<rparr>"

definition half_day_config :: schedule_config where
  "half_day_config = \<lparr>cfg_start_time = ''08:00:00'', cfg_class_duration = 720,
     cfg_days = Some [''Mon'', ''Tue''], cfg_periods = Some [''1'', ''2'', ''3'']\<rparr>"

section \<open>The scheduling engine and the validator\<close>

text \<open>
  The generator and the validator run on the server, whose code is not part of these
  sources. This section models them from the specification (sections 3, 4 and 6): the data
  model, the demand expander, the availability index, the candidate generator, the
  placement engine with its commit, undo and give-up steps, and the reports of the
  validator. The soft side of the placement engine (the order of the sessions, the scoring
  of candidates with its seeded tie-break, the choice of what to undo when backtracking) is
  a parameter, the strategy; the hard side is fixed here.
\<close>

subsection \<open>Data model\<close>

text \<open>Modelled from the spec: the Room of section 3 (identity, type, capacity, building).\<close>

datatype room_type = Regular | Lab | Hall

text \<open>Modelled from the spec: the Room record of section 3.\<close>

record room =
  room_name :: string
  kind :: room_type
  capacity :: nat
  building :: string

text \<open>Modelled from the spec: the Teacher of section 3 (identity, maximum sessions per day,
  set of unavailable (day, period) pairs).\<close>

record teacher_info =
  teacher_name :: string
  max_sessions_per_day :: nat
  unavailable :: "(string \<times> nat) list"

text \<open>Modelled from the spec: the Calendar of section 3, working days and periods
  1 to \<open>periods_per_day\<close>.\<close>

record calendar =
  working_days :: "string list"
  periods_per_day :: nat

text \<open>Modelled from the spec: the SubjectDemand of section 3 (subject, with its code, and
  section, credit hours, practical flag, responsible teacher if any).\<close>

record subject_demand =
  demand_subject :: string
  demand_code :: string
  demand_section :: string
  credit_hours :: nat
  practical_flag :: bool
  responsible_teacher :: "string option"


text \<open>Modelled from the spec: the Session of section 3, a unit of demand tagged with its
  subject, teacher, section and week-occurrence index; a practical session is a block of
  three consecutive periods.\<close>

record session =
  session_subject :: string
  session_teacher :: string
  session_section :: string
  session_practical :: bool
  occurrence :: nat


text \<open>Modelled from the spec: the TimetableEntry of section 3, a session reference with a
  day, a period and a room. A practical block is committed as one entry per period.\<close>

record timetable_entry =
  of_session :: session
  on_day :: string
  in_period :: nat
  in_room :: string

text \<open>Modelled from the spec: the read-only snapshots the engine consumes (section 6).
  \<open>lab_fallback\<close> says whether theory sessions may use lab rooms (section 4.3).\<close>

record scheduling_input =
  the_calendar :: calendar
  teacher_list :: "teacher_info list"
  room_list :: "room list"
  demands :: "subject_demand list"
  lab_fallback :: bool

subsection \<open>Demand expander\<close>

text \<open>Modelled from the spec: section 4.1, the weekly session count of a record: N theory
  credits give N single-period sessions, a practical gives one block.\<close>

definition weekly_count :: "subject_demand \<Rightarrow> nat" where
  "weekly_count dm = (if practical_flag dm then 1 else credit_hours dm)"

text \<open>Modelled from the spec: section 4.1, a record with zero computed sessions or without
  a responsible teacher is a configuration error; it is excluded from the run (see
  \<open>expand\<close>) and reported (see \<open>generate\<close>).\<close>

definition configuration_error :: "subject_demand \<Rightarrow> bool" where
  "configuration_error dm \<longleftrightarrow> weekly_count dm = 0 \<or> responsible_teacher dm = None"

text \<open>Modelled from the spec: section 4.1, the sessions of one record, with occurrence
  indices 1 to N.\<close>

definition expand_demand :: "subject_demand \<Rightarrow> session list" where
  "expand_demand dm =
     (case responsible_teacher dm of
        None \<Rightarrow> []
      | Some t \<Rightarrow>
          map (\<lambda>k. \<lparr>session_subject = demand_subject dm, session_teacher = t,
                     session_section = demand_section dm, session_practical = practical_flag dm,
                     occurrence = k\<rparr>)
            [1..<Suc (weekly_count dm)])"

text \<open>Modelled from the spec: section 4.1, the full session list of the run.\<close>

definition expand :: "subject_demand list \<Rightarrow> session list" where
  "expand ds = concat (map expand_demand (filter (\<lambda>dm. \<not> configuration_error dm) ds))"

subsection \<open>Availability index\<close>

text \<open>Modelled from the spec: section 4.2, the per-run occupancy map
  (teacher/day/period busy, room/day/period busy).\<close>

record occupancy_map =
  teacher_busy :: "(string \<times> string \<times> nat) list"
  room_busy :: "(string \<times> string \<times> nat) list"

text \<open>Modelled from the spec: section 4.2, \<open>isTeacherFree(teacher, day, period)\<close>: not
  busy in the occupancy map and not one of the teacher's unavailable periods.\<close>

definition isTeacherFree ::
    "scheduling_input \<Rightarrow> occupancy_map \<Rightarrow> string \<Rightarrow> string \<Rightarrow> nat \<Rightarrow> bool" where
  "isTeacherFree inp occ t d p \<longleftrightarrow>
     (t, d, p) \<notin> set (teacher_busy occ) \<and>
     (\<forall>ti \<in> set (teacher_list inp). teacher_name ti = t \<longrightarrow> (d, p) \<notin> set (unavailable ti))"

text \<open>Modelled from the spec: section 4.2, \<open>isRoomFree(room, day, period)\<close>.\<close>

definition isRoomFree :: "occupancy_map \<Rightarrow> string \<Rightarrow> string \<Rightarrow> nat \<Rightarrow> bool" where
  "isRoomFree occ r d p \<longleftrightarrow> (r, d, p) \<notin> set (room_busy occ)"

text \<open>Modelled from the spec: section 4.2, \<open>roomsOfType(type)\<close>.\<close>

definition roomsOfType :: "scheduling_input \<Rightarrow> room_type \<Rightarrow> room list" where
  "roomsOfType inp ty = filter (\<lambda>r. kind r = ty) (room_list inp)"

subsection \<open>Run state, commit and undo\<close>

text \<open>Modelled from the spec: section 4.4, the state of a run: sessions still pending,
  the committed entries, the failed sessions, and the occupancy map of section 4.2.\<close>

record run_state =
  pending :: "session list"
  committed :: "timetable_entry list"
  failedSessions :: "session list"
  occupancy :: occupancy_map

text \<open>Modelled from the spec: the periods a session needs when it starts in period \<open>p\<close>:
  one for theory, three consecutive ones for a practical block (sections 3 and 4.3).\<close>

definition required_periods :: "session \<Rightarrow> nat \<Rightarrow> nat list" where
  "required_periods s p = (if session_practical s then [p, p + 1, p + 2] else [p])"

text \<open>Modelled from the spec: the entries of a session placed on day \<open>d\<close> from period \<open>p\<close>
  in room \<open>r\<close>: same day, same room and same teacher throughout (section 4.3).\<close>

definition block :: "session \<Rightarrow> string \<Rightarrow> nat \<Rightarrow> string \<Rightarrow> timetable_entry list" where
  "block s d p r =
     map (\<lambda>q. \<lparr>of_session = s, on_day = d, in_period = q, in_room = r\<rparr>) (required_periods s p)"

text \<open>Modelled from the spec: section 4.2, the key of an entry in the occupancy map of the
  teachers: teacher, day and period.\<close>

definition teacher_key :: "timetable_entry \<Rightarrow> string \<times> string \<times> nat" where
  "teacher_key e = (session_teacher (of_session e), on_day e, in_period e)"

text \<open>Modelled from the spec: section 4.2, the key of an entry in the occupancy map of the
  rooms: room, day and period.\<close>

definition room_key :: "timetable_entry \<Rightarrow> string \<times> string \<times> nat" where
  "room_key e = (in_room e, on_day e, in_period e)"

text \<open>Modelled from the spec: section 4.4, commit: the session becomes placed, its entries
  are created, and the availability index is updated with them (section 4.2).\<close>

definition commit :: "session \<Rightarrow> string \<Rightarrow> nat \<Rightarrow> string \<Rightarrow> run_state \<Rightarrow> run_state" where
  "commit s d p r st =
     st\<lparr>pending := remove1 s (pending st),
        committed := committed st @ block s d p r,
        occupancy := \<lparr>teacher_busy = teacher_busy (occupancy st) @ map teacher_key (block s d p r),
                      room_busy = room_busy (occupancy st) @ map room_key (block s d p r)\<rparr>\<rparr>"

text \<open>Modelled from the spec: section 4.4, undo of a placed session when backtracking: its
  entries are removed, their slots are freed in the index, the session is pending again.\<close>

definition undo :: "session \<Rightarrow> run_state \<Rightarrow> run_state" where
  "undo s st =
     (let gone = filter (\<lambda>e. of_session e = s) (committed st) in
      st\<lparr>pending := s # pending st,
         committed := filter (\<lambda>e. of_session e \<noteq> s) (committed st),
         occupancy :=
           \<lparr>teacher_busy = filter (\<lambda>k. k \<notin> set (map teacher_key gone)) (teacher_busy (occupancy st)),
            room_busy = filter (\<lambda>k. k \<notin> set (map room_key gone)) (room_busy (occupancy st))\<rparr>\<rparr>)"

text \<open>Modelled from the spec: section 4.4, a session whose backtracking budget is exhausted
  is marked failed and the run continues.\<close>

definition give_up :: "session \<Rightarrow> run_state \<Rightarrow> run_state" where
  "give_up s st = st\<lparr>pending := remove1 s (pending st), failedSessions := failedSessions st @ [s]\<rparr>"

subsection \<open>Candidate generator\<close>

text \<open>Modelled from the spec: section 4.3, the room type matches the subject type: a lab
  for a practical; for theory a room that is not a lab, or a lab if that is allowed.\<close>

definition room_fits :: "scheduling_input \<Rightarrow> session \<Rightarrow> room \<Rightarrow> bool" where
  "room_fits inp s r \<longleftrightarrow>
     (if session_practical s then kind r = Lab else kind r \<noteq> Lab \<or> lab_fallback inp)"

text \<open>
  Modelled from the spec: section 4.3, the legal candidates of a session, in calendar
  order: all required periods lie within the day, the teacher and the room are free at all
  of them, and the room fits. The remaining hard rules of section 4.3 (the Friday bounds,
  the reserved Wednesday) are the parameter \<open>rules\<close>, which sees the session, the day, the
  first period and the entries committed so far.
\<close>

definition legal ::
    "scheduling_input \<Rightarrow> (session \<Rightarrow> string \<Rightarrow> nat \<Rightarrow> timetable_entry list \<Rightarrow> bool)
      \<Rightarrow> run_state \<Rightarrow> session \<Rightarrow> string \<Rightarrow> nat \<Rightarrow> room \<Rightarrow> bool" where
  "legal inp rules st s d p r \<longleftrightarrow>
     room_fits inp s r \<and> rules s d p (committed st) \<and>
     list_all (\<lambda>q. 1 \<le> q \<and> q \<le> periods_per_day (the_calendar inp) \<and>
                   isTeacherFree inp (occupancy st) (session_teacher s) d q \<and>
                   isRoomFree (occupancy st) (room_name r) d q)
       (required_periods s p)"

text \<open>Modelled from the spec: section 4.3, the ordered candidates of a session: the legal
  (day, first period, room) triples, by day, then period, then room.\<close>

definition candidates ::
    "scheduling_input \<Rightarrow> (session \<Rightarrow> string \<Rightarrow> nat \<Rightarrow> timetable_entry list \<Rightarrow> bool)
      \<Rightarrow> run_state \<Rightarrow> session \<Rightarrow> (string \<times> nat \<times> string) list" where
  "candidates inp rules st s =
     concat (map (\<lambda>d.
       concat (map (\<lambda>p.
         map (\<lambda>r. (d, p, room_name r)) (filter (legal inp rules st s d p) (room_list inp)))
         [1..<Suc (periods_per_day (the_calendar inp))]))
       (working_days (the_calendar inp)))"

subsection \<open>Placement engine\<close>

text \<open>Modelled from the spec: section 4.4, what the engine can do with a session: place it
  on a candidate, undo a placed one (backtracking, and the shifts of the compactor of
  section 4.5, which are an undo followed by a placement), or mark it failed.\<close>

datatype action =
    Place session string nat string
  | Undo session
  | GiveUp session

text \<open>Modelled from the spec: sections 4.3 and 4.4, one step. A placement is carried out
  only for a pending session and a candidate the generator produces for it now; illegal
  candidates are never committed.\<close>

definition step ::
    "scheduling_input \<Rightarrow> (session \<Rightarrow> string \<Rightarrow> nat \<Rightarrow> timetable_entry list \<Rightarrow> bool)
      \<Rightarrow> action \<Rightarrow> run_state \<Rightarrow> run_state option" where
  "step inp rules a st =
     (case a of
        Place s d p r \<Rightarrow>
          if s \<in> set (pending st) \<and> (d, p, r) \<in> set (candidates inp rules st s)
          then Some (commit s d p r st) else None
      | Undo s \<Rightarrow>
          if s \<in> of_session ` set (committed st) then Some (undo s st) else None
      | GiveUp s \<Rightarrow>
          if s \<in> set (pending st) then Some (give_up s st) else None)"

text \<open>
  Modelled from the spec: section 4.4 and section 9, the engine with a pluggable strategy.
  The strategy proposes the next action from the state (the order of the sessions, the
  scoring and the backtracking choices live there); the engine carries it out if it is
  allowed and stops otherwise. \<open>budget\<close> bounds the number of steps (sections 4.4 and 5).
\<close>

fun engine ::
    "scheduling_input \<Rightarrow> (session \<Rightarrow> string \<Rightarrow> nat \<Rightarrow> timetable_entry list \<Rightarrow> bool)
      \<Rightarrow> (run_state \<Rightarrow> action option) \<Rightarrow> nat \<Rightarrow> run_state \<Rightarrow> run_state" where
  "engine inp rules strategy 0 st = st"
| "engine inp rules strategy (Suc budget) st =
     (case strategy st of
        None \<Rightarrow> st
      | Some a \<Rightarrow>
          (case step inp rules a st of
             None \<Rightarrow> st
           | Some st' \<Rightarrow> engine inp rules strategy budget st'))"

text \<open>Modelled from the spec: section 4.2, the index is rebuilt at the start of each run;
  section 4.4, every session starts pending.\<close>

definition initial :: "scheduling_input \<Rightarrow> run_state" where
  "initial inp =
     \<lparr>pending = expand (demands inp), committed = [], failedSessions = [],
      occupancy = \<lparr>teacher_busy = [], room_busy = []\<rparr>\<rparr>"

text \<open>Modelled from the spec: sections 4.4 and 5, when the budget runs out the sessions
  still pending are reported as failed, so that the result lists every session that was
  not placed.\<close>

definition finish :: "run_state \<Rightarrow> run_state" where
  "finish st = st\<lparr>pending := [], failedSessions := failedSessions st @ pending st\<rparr>"

text \<open>Modelled from the spec: section 4.4, the retry cap, a fixed small multiple of the
  session count.\<close>

definition step_budget :: "scheduling_input \<Rightarrow> nat" where
  "step_budget inp = 4 * length (expand (demands inp))"

text \<open>Modelled from the spec: section 4.4, the tie-break seed of a run that is not a
  regeneration with new randomness.\<close>

definition default_seed :: nat where
  "default_seed = 0"

text \<open>
  Modelled from the spec: section 6, \<open>generate(configId, regenerate)\<close>, giving the entries
  and the failed sessions, and with them the records that the demand expander found to be
  configuration errors, which section 4.1 requires to be surfaced, not silently skipped.
  The strategy takes the tie-break seed as its first argument (section 9); the seed is the
  fixed \<open>default_seed\<close> unless regeneration with new randomness is requested, in which case
  it is the fresh value \<open>fresh\<close>.
\<close>

definition generate ::
    "scheduling_input \<Rightarrow> (session \<Rightarrow> string \<Rightarrow> nat \<Rightarrow> timetable_entry list \<Rightarrow> bool)
      \<Rightarrow> (nat \<Rightarrow> run_state \<Rightarrow> action option) \<Rightarrow> bool \<Rightarrow> nat
      \<Rightarrow> timetable_entry list \<times> session list \<times> subject_demand list" where
  "generate inp rules strategy regenerate fresh =
     (let seed = (if regenerate then fresh else default_seed);
          final = finish (engine inp rules (strategy seed) (step_budget inp) (initial inp))
      in (committed final, failedSessions final, filter configuration_error (demands inp)))"

text \<open>Modelled from the spec: section 4.4, the sessions that are placed: those with a
  committed entry.\<close>

definition placed_sessions :: "run_state \<Rightarrow> session list" where
  "placed_sessions st = remdups (map of_session (committed st))"

subsection \<open>What a run maintains\<close>

text \<open>The occupancy map lists exactly the slots of the committed entries, and no teacher
  and no room is entered twice for one slot (section 4.2: the index is updated with every
  commit and rollback).\<close>

definition index_ok :: "run_state \<Rightarrow> bool" where
  "index_ok st \<longleftrightarrow>
     teacher_busy (occupancy st) = map teacher_key (committed st) \<and>
     room_busy (occupancy st) = map room_key (committed st) \<and>
     distinct (map teacher_key (committed st)) \<and>
     distinct (map room_key (committed st))"




subsection \<open>Validator reports\<close>

text \<open>Modelled from the spec: section 4.6, the status of a report.\<close>

datatype report_status = PASS | FAIL

text \<open>
  The records of the conflict reports carry the members the constraint-testing page reads
  (\<open>renderViolationDetails\<close>): \<open>teacher_name\<close> or \<open>classroom_name\<close>, \<open>day\<close>, \<open>period\<close>,
  \<open>conflict_count\<close> and \<open>conflicting_assignments\<close>, each assignment with \<open>subject\<close>,
  \<open>class_group\<close> and \<open>classroom\<close> or \<open>teacher\<close>. A member that is absent is the empty text.
\<close>

record assignment =
  as_subject :: string
  as_class_group :: string
  as_classroom :: string
  as_teacher :: string

record conflict_violation =
  cv_teacher_name :: string
  cv_classroom_name :: string
  cv_day :: string
  cv_period :: nat
  conflict_count :: nat
  conflicting_assignments :: "assignment list"

text \<open>Modelled from the spec: section 4.6, a report: the status, the violation records and
  the compliant items.\<close>

record conflict_report =
  conflict_status :: report_status
  conflict_violations :: "conflict_violation list"
  compliant_assignments_of :: "timetable_entry list"

text \<open>Modelled from the spec: section 4.6, the assignment record of an entry in the teacher
  conflict report: the room is named.\<close>

definition assignment_at_teacher :: "timetable_entry \<Rightarrow> assignment" where
  "assignment_at_teacher e =
     \<lparr>as_subject = session_subject (of_session e), as_class_group = session_section (of_session e),
      as_classroom = in_room e, as_teacher = []\<rparr>"

text \<open>Modelled from the spec: section 4.6, the assignment record of an entry in the room
  conflict report: the teacher is named.\<close>

definition assignment_at_room :: "timetable_entry \<Rightarrow> assignment" where
  "assignment_at_room e =
     \<lparr>as_subject = session_subject (of_session e), as_class_group = session_section (of_session e),
      as_classroom = [], as_teacher = session_teacher (of_session e)\<rparr>"

text \<open>Modelled from the spec: section 4.6, the entries of a timetable at one
  (teacher, day, period) or (room, day, period).\<close>

definition sharing :: "(timetable_entry \<Rightarrow> 'k) \<Rightarrow> timetable_entry list \<Rightarrow> 'k \<Rightarrow> timetable_entry list" where
  "sharing key es k = filter (\<lambda>e. key e = k) es"

text \<open>
  Modelled from the spec: section 4.6, the teacher conflict report of a set of entries,
  however they were produced: one violation record per (teacher, day, period) that more
  than one entry occupies, naming the teacher, the day, the period and every assignment
  there; the entries that are alone at their slot are the compliant items; the status is
  PASS exactly when there is no violation.
\<close>

definition teacher_conflicts :: "timetable_entry list \<Rightarrow> conflict_report" where
  "teacher_conflicts es =
     (let found = map (\<lambda>(t, d, p).
                    \<lparr>cv_teacher_name = t, cv_classroom_name = [], cv_day = d, cv_period = p,
                     conflict_count = length (sharing teacher_key es (t, d, p)),
                     conflicting_assignments = map assignment_at_teacher (sharing teacher_key es (t, d, p))\<rparr>)
                   (filter (\<lambda>k. length (sharing teacher_key es k) > 1) (remdups (map teacher_key es)))
      in \<lparr>conflict_status = (if found = [] then PASS else FAIL),
          conflict_violations = found,
          compliant_assignments_of = filter (\<lambda>e. length (sharing teacher_key es (teacher_key e)) = 1) es\<rparr>)"

text \<open>Modelled from the spec: section 4.6, the room conflict report, in the same way for
  (room, day, period).\<close>

definition room_conflicts :: "timetable_entry list \<Rightarrow> conflict_report" where
  "room_conflicts es =
     (let found = map (\<lambda>(r, d, p).
                    \<lparr>cv_teacher_name = [], cv_classroom_name = r, cv_day = d, cv_period = p,
                     conflict_count = length (sharing room_key es (r, d, p)),
                     conflicting_assignments = map assignment_at_room (sharing room_key es (r, d, p))\<rparr>)
                   (filter (\<lambda>k. length (sharing room_key es k) > 1) (remdups (map room_key es)))
      in \<lparr>conflict_status = (if found = [] then PASS else FAIL),
          conflict_violations = found,
          compliant_assignments_of = filter (\<lambda>e. length (sharing room_key es (room_key e)) = 1) es\<rparr>)"

text \<open>
  \<open>renderViolationDetails\<close> of the constraint-testing page for the constraint types
  \<open>teacher_conflicts\<close> and \<open>room_conflicts\<close>, as the lines of text it shows:
  \<^verbatim>\<open>{constraintType === 'teacher_conflicts' ? 'Teacher' : 'Room'}:
    {violation.teacher_name || violation.classroom_name}\<close>,
  \<^verbatim>\<open>Time: {violation.day} Period {violation.period}\<close>,
  \<^verbatim>\<open>Conflicts: {violation.conflict_count}\<close>, \<^verbatim>\<open>Conflicting Assignments:\<close> and, for each
  assignment, \<^verbatim>\<open>{assignment.subject} - {assignment.class_group}
  ({assignment.classroom || assignment.teacher})\<close>.
\<close>

definition assignment_line :: "assignment \<Rightarrow> string" where
  "assignment_line a =
     as_subject a @ '' - '' @ as_class_group a @ '' (''
       @ (if as_classroom a \<noteq> [] then as_classroom a else as_teacher a) @ '')''"

definition render_conflict :: "string \<Rightarrow> conflict_violation \<Rightarrow> string list" where
  "render_conflict constraintType v =
     [(if constraintType = ''teacher_conflicts'' then ''Teacher'' else ''Room'') @ '': ''
        @ (if cv_teacher_name v \<noteq> [] then cv_teacher_name v else cv_classroom_name v),
      ''Time: '' @ cv_day v @ '' Period '' @ string_of_nat (cv_period v),
      ''Conflicts: '' @ string_of_nat (conflict_count v),
      ''Conflicting Assignments:'']
     @ map assignment_line (conflicting_assignments v)"

subsection \<open>Practical block report\<close>

text \<open>
  The records of the practical block report carry the members the constraint-testing page
  reads: \<open>subject_name\<close>, \<open>class_group\<close>, \<open>day\<close>, \<open>violation_type\<close>, \<open>block_length\<close>,
  \<open>is_consecutive\<close> and \<open>periods\<close>.
\<close>

record block_violation =
  bv_subject_name :: string
  bv_class_group :: string
  bv_day :: string
  bv_violation_type :: string
  block_length :: nat
  is_consecutive :: bool
  bv_periods :: "nat list"

text \<open>Modelled from the spec: section 4.6, the report: the status, the violation records and
  the compliant items.\<close>

record block_report =
  block_status :: report_status
  block_violations :: "block_violation list"
  compliant_blocks_of :: "block_violation list"

text \<open>Modelled from the spec: section 4.6, the validator sees a practical block as the
  practical entries of one subject and section on one day.\<close>

definition block_key :: "timetable_entry \<Rightarrow> string \<times> string \<times> string" where
  "block_key e = (session_subject (of_session e), session_section (of_session e), on_day e)"

text \<open>Modelled from the spec: section 3, the entries of practical sessions.\<close>

definition practical_entries :: "timetable_entry list \<Rightarrow> timetable_entry list" where
  "practical_entries es = filter (\<lambda>e. session_practical (of_session e)) es"

text \<open>Modelled from the spec: section 4.6, the periods of a block, in ascending order.\<close>

definition block_periods :: "timetable_entry list \<Rightarrow> string \<times> string \<times> string \<Rightarrow> nat list" where
  "block_periods es k = sort (map in_period (sharing block_key (practical_entries es) k))"

text \<open>Modelled from the spec: section 3, consecutive periods: each period is the one after
  the period before it.\<close>

fun consecutive :: "nat list \<Rightarrow> bool" where
  "consecutive [] = True"
| "consecutive [p] = True"
| "consecutive (p # q # ps) = (q = Suc p \<and> consecutive (q # ps))"

text \<open>Modelled from the spec: sections 3 and 4.6, the record of a block, with its length,
  whether its periods are consecutive, and the issue if there is one. The wording of the
  issue is not fixed by the specification.\<close>

definition block_record :: "timetable_entry list \<Rightarrow> string \<times> string \<times> string \<Rightarrow> block_violation" where
  "block_record es k =
     (case k of (sub, sec, d) \<Rightarrow>
        \<lparr>bv_subject_name = sub, bv_class_group = sec, bv_day = d,
         bv_violation_type =
           (if length (block_periods es k) \<noteq> 3 then ''Block is not 3 periods long''
            else if \<not> consecutive (block_periods es k) then ''Periods are not consecutive''
            else []),
         block_length = length (block_periods es k),
         is_consecutive = consecutive (block_periods es k),
         bv_periods = block_periods es k\<rparr>)"

text \<open>Modelled from the spec: sections 3 and 8, a practical block is three consecutive
  periods; any other block is flagged.\<close>

definition block_flagged :: "block_violation \<Rightarrow> bool" where
  "block_flagged v \<longleftrightarrow> block_length v \<noteq> 3 \<or> \<not> is_consecutive v"

text \<open>
  Modelled from the spec: section 4.6, the practical block report of a set of entries,
  however they were produced: the blocks whose length is not 3 periods or whose periods are
  not consecutive are the violations, the others the compliant items; the status is PASS
  exactly when there is no violation.
\<close>

definition practical_blocks :: "timetable_entry list \<Rightarrow> block_report" where
  "practical_blocks es =
     (let items = map (block_record es) (remdups (map block_key (practical_entries es)));
          found = filter block_flagged items
      in \<lparr>block_status = (if found = [] then PASS else FAIL),
          block_violations = found,
          compliant_blocks_of = filter (\<lambda>v. \<not> block_flagged v) items\<rparr>)"



subsection \<open>Subject frequency report\<close>










subsection \<open>A sample strategy and a sample department\<close>

text \<open>
  Modelled from the spec: section 4.4, a simple strategy for the examples: take the first
  pending session, choose among its candidates by the seed, and give up when it has none.
\<close>

definition seeded_fit ::
    "scheduling_input \<Rightarrow> (session \<Rightarrow> string \<Rightarrow> nat \<Rightarrow> timetable_entry list \<Rightarrow> bool)
      \<Rightarrow> nat \<Rightarrow> run_state \<Rightarrow> action option" where
  "seeded_fit inp rules seed st =
     (case pending st of
        [] \<Rightarrow> None
      | s # _ \<Rightarrow>
          (case candidates inp rules st s of
             [] \<Rightarrow> Some (GiveUp s)
           | c # cs \<Rightarrow>
               (case (c # cs) ! (seed mod length (c # cs)) of
                  (d, p, r) \<Rightarrow> Some (Place s d p r))))"

text \<open>No further hard rule.\<close>

definition no_rules :: "session \<Rightarrow> string \<Rightarrow> nat \<Rightarrow> timetable_entry list \<Rightarrow> bool" where
  "no_rules s d p es = True"

text \<open>Two days of three periods, one room and one lab, one teacher; a theory subject of two
  credits and a practical, both for section 24SW-A.\<close>

definition dbs_demand :: subject_demand where
  "dbs_demand =
     \<lparr>demand_subject = ''DBS'', demand_code = ''SW215'', demand_section = ''24SW-A'',
      credit_hours = 2, practical_flag = False, responsible_teacher = Some ''T1''\<rparr>"

definition dbs_lab_demand :: subject_demand where
  "dbs_lab_demand =
     \<lparr>demand_subject = ''DBS (PR)'', demand_code = ''SW215'', demand_section = ''24SW-A'',
      credit_hours = 1, practical_flag = True, responsible_teacher = Some ''T1''\<rparr>"

definition small_department :: scheduling_input where
  "small_department =
     \<lparr>the_calendar = \<lparr>working_days = [''Mon'', ''Tue''], periods_per_day = 3\<rparr>,
      teacher_list = [\<lparr>teacher_name = ''T1'', max_sessions_per_day = 3, unavailable = []\<rparr>],
      room_list = [\<lparr>room_name = ''R1'', kind = Regular, capacity = 40, building = ''A''\<rparr>,
                   \<lparr>room_name = ''Lab-1'', kind = Lab, capacity = 30, building = ''A''\<rparr>],
      demands = [dbs_demand, dbs_lab_demand],
      lab_fallback = False\<rparr>"

definition dbs_session :: "nat \<Rightarrow> session" where
  "dbs_session k =
     \<lparr>session_subject = ''DBS'', session_teacher = ''T1'', session_section = ''24SW-A'',
      session_practical = False, occurrence = k\<rparr>"

definition dbs_lab_session :: session where
  "dbs_lab_session =
     \<lparr>session_subject = ''DBS (PR)'', session_teacher = ''T1'', session_section = ''24SW-A'',
      session_practical = True, occurrence = 1\<rparr>"

text \<open>Two entries that put teacher T1 in two rooms, and two that put two teachers in room
  R1, on Monday in period 1.\<close>

definition ada_session :: session where
  "ada_session =
     \<lparr>session_subject = ''ADA'', session_teacher = ''T1'', session_section = ''24SW-B'',
      session_practical = False, occurrence = 1\<rparr>"

definition os_session :: session where
  "os_session =
     \<lparr>session_subject = ''OS'', session_teacher = ''T2'', session_section = ''24SW-B'',
      session_practical = False, occurrence = 1\<rparr>"

definition teacher_clash :: "timetable_entry list" where
  "teacher_clash =
     [\<lparr>of_session = dbs_session 1, on_day = ''Mon'', in_period = 1, in_room = ''R1''\<rparr>,
      \<lparr>of_session = ada_session, on_day = ''Mon'', in_period = 1, in_room = ''R2''\<rparr>]"

definition room_clash :: "timetable_entry list" where
  "room_clash =
     [\<lparr>of_session = dbs_session 1, on_day = ''Mon'', in_period = 1, in_room = ''R1''\<rparr>,
      \<lparr>of_session = os_session, on_day = ''Mon'', in_period = 1, in_room = ''R1''\<rparr>]"






section \<open>Blank strings\<close>

lemma trim_blank: "trim s = [] \<longleftrightarrow> (\<forall>c \<in> set s. is_space c)"
proof -
  have "trim s = [] \<longleftrightarrow> (\<forall>x \<in> set (dropWhile is_space s). is_space x)"
    by (simp add: trim_def dropWhile_eq_Nil_conv)
  also have "\<dots> \<longleftrightarrow> dropWhile is_space s = []"
  proof
    assume all: "\<forall>x \<in> set (dropWhile is_space s). is_space x"
    show "dropWhile is_space s = []"
    proof (rule ccontr)
      assume ne: "dropWhile is_space s \<noteq> []"
      then have "\<not> is_space (hd (dropWhile is_space s))" by (rule hd_dropWhile)
      moreover from ne have "hd (dropWhile is_space s) \<in> set (dropWhile is_space s)" by simp
      ultimately show False using all by blast
    qed
  qed (auto dest: set_dropWhileD)
  also have "\<dots> \<longleftrightarrow> (\<forall>c \<in> set s. is_space c)" by (simp add: dropWhile_eq_Nil_conv)
  finally show ?thesis .
qed

section \<open>Facts about the string helpers\<close>









section \<open>The period generator\<close>




















section \<open>Prerequisites of a generation request\<close>

lemma generate_request_not_prerequisite: "generate_request \<notin> set prerequisite_requests"
  by (simp add: generate_request_def prerequisite_requests_def)

lemma config_missing_iff:
  "config_missing cs \<longleftrightarrow>
     cs = [] \<or> cfg_start_time (hd cs) = [] \<or> cfg_days (hd cs) = None \<or> cfg_days (hd cs) = Some []
     \<or> cfg_periods (hd cs) = None \<or> cfg_periods (hd cs) = Some []"
  by (cases cs) (auto simp: config_missing_def)

lemma without_batch_iff:
  "without_batch s \<longleftrightarrow>
     subject_batch s = NoBatch \<or> subject_batch s = BatchNumber 0 \<or>
     (\<exists>b. subject_batch s = BatchName b \<and> (\<forall>c \<in> set b. is_space c))"
  by (cases "subject_batch s") (auto simp: without_batch_def trim_blank)

lemma validatePrerequisites_members:
  "set (validatePrerequisites (Some d)) =
     (if config_missing (configs d) then {ConfigurationMissing} else {}) \<union>
     (if batches d = [] then {NoBatches} else {}) \<union>
     (if subjects d = [] then {NoSubjects}
      else if filter without_batch (subjects d) \<noteq> []
           then {SubjectsNeedBatch (length (filter without_batch (subjects d)))} else {}) \<union>
     (if teachers d = [] then {NoTeachers} else {}) \<union>
     (if assignments d = [] then {NoAssignments} else {}) \<union>
     (if classrooms d = [] then {NoClassrooms} else {})"
  by (simp add: validatePrerequisites_def Let_def)

lemma blocked_without_request:
  assumes "validatePrerequisites fetched \<noteq> []"
  shows "handleGenerateTimetable fetched response =
      (\<lparr>genLoading = False, genError = Some (FixIssues (validatePrerequisites fetched)),
        genSuccess = None\<rparr>, prerequisite_requests)"
  using assms by (simp add: handleGenerateTimetable_def Let_def)

text \<open>
  Claim C7. A missing prerequisite is reported and is fatal: if the department has no
  schedule configuration, or its first configuration has no start time, no days or no
  periods, or there is no batch, no subject, no teacher, no teacher assignment or no
  classroom, then the issue of that prerequisite is in the reported list and the generate
  request is not sent; the same holds when the prerequisites could not be fetched.
  Conversely each of these issues is reported only when its prerequisite is missing.
  Whenever the check returns at least one issue, the handler sends no generate request,
  reports exactly the issues found and reports no success; with no issue the request is
  sent.
\<close>

theorem handleGenerateTimetable_prerequisites:
  "(validatePrerequisites fetched \<noteq> [] \<longrightarrow>
      generate_request \<notin> set (snd (handleGenerateTimetable fetched response)) \<and>
      genError (fst (handleGenerateTimetable fetched response))
        = Some (FixIssues (validatePrerequisites fetched)) \<and>
      genSuccess (fst (handleGenerateTimetable fetched response)) = None) \<and>
   (validatePrerequisites fetched = [] \<longrightarrow>
      generate_request \<in> set (snd (handleGenerateTimetable fetched response))) \<and>
   (fetched = None \<longrightarrow>
      validatePrerequisites fetched = [UnableToValidate] \<and>
      generate_request \<notin> set (snd (handleGenerateTimetable fetched response))) \<and>
   (\<forall>d. fetched = Some d \<longrightarrow>
      (ConfigurationMissing \<in> set (validatePrerequisites fetched) \<longleftrightarrow>
         configs d = [] \<or> cfg_start_time (hd (configs d)) = [] \<or>
         cfg_days (hd (configs d)) = None \<or> cfg_days (hd (configs d)) = Some [] \<or>
         cfg_periods (hd (configs d)) = None \<or> cfg_periods (hd (configs d)) = Some []) \<and>
      (NoBatches \<in> set (validatePrerequisites fetched) \<longleftrightarrow> batches d = []) \<and>
      (NoSubjects \<in> set (validatePrerequisites fetched) \<longleftrightarrow> subjects d = []) \<and>
      (NoTeachers \<in> set (validatePrerequisites fetched) \<longleftrightarrow> teachers d = []) \<and>
      (NoAssignments \<in> set (validatePrerequisites fetched) \<longleftrightarrow> assignments d = []) \<and>
      (NoClassrooms \<in> set (validatePrerequisites fetched) \<longleftrightarrow> classrooms d = []) \<and>
      (\<forall>n. SubjectsNeedBatch n \<in> set (validatePrerequisites fetched) \<longleftrightarrow>
         subjects d \<noteq> [] \<and> 0 < n \<and>
         n = length (filter (\<lambda>s. subject_batch s = NoBatch \<or> subject_batch s = BatchNumber 0 \<or>
                (\<exists>b. subject_batch s = BatchName b \<and> (\<forall>c \<in> set b. is_space c))) (subjects d))) \<and>
      UnableToValidate \<notin> set (validatePrerequisites fetched) \<and>
      (configs d = [] \<or> cfg_start_time (hd (configs d)) = [] \<or>
       cfg_days (hd (configs d)) = None \<or> cfg_days (hd (configs d)) = Some [] \<or>
       cfg_periods (hd (configs d)) = None \<or> cfg_periods (hd (configs d)) = Some [] \<or>
       batches d = [] \<or> subjects d = [] \<or> teachers d = [] \<or> assignments d = [] \<or>
       classrooms d = [] \<longrightarrow>
         generate_request \<notin> set (snd (handleGenerateTimetable fetched response))))"
proof (intro conjI impI allI)
  assume issues: "validatePrerequisites fetched \<noteq> []"
  note blocked = blocked_without_request [OF issues, of response]
  show "generate_request \<notin> set (snd (handleGenerateTimetable fetched response))"
    by (simp add: blocked generate_request_not_prerequisite)
  show "genError (fst (handleGenerateTimetable fetched response))
        = Some (FixIssues (validatePrerequisites fetched))"
    by (simp add: blocked)
  show "genSuccess (fst (handleGenerateTimetable fetched response)) = None"
    by (simp add: blocked)
next
  assume "validatePrerequisites fetched = []"
  then show "generate_request \<in> set (snd (handleGenerateTimetable fetched response))"
    by (simp add: handleGenerateTimetable_def split: generate_response.split)
next
  assume none: "fetched = None"
  then show unable: "validatePrerequisites fetched = [UnableToValidate]"
    by (simp add: validatePrerequisites_def)
  then have "validatePrerequisites fetched \<noteq> []" by simp
  then show "generate_request \<notin> set (snd (handleGenerateTimetable fetched response))"
    by (simp add: blocked_without_request generate_request_not_prerequisite)
next
  fix d assume d: "fetched = Some d"
  note members = validatePrerequisites_members [of d]
  show "ConfigurationMissing \<in> set (validatePrerequisites fetched) \<longleftrightarrow>
         configs d = [] \<or> cfg_start_time (hd (configs d)) = [] \<or>
         cfg_days (hd (configs d)) = None \<or> cfg_days (hd (configs d)) = Some [] \<or>
         cfg_periods (hd (configs d)) = None \<or> cfg_periods (hd (configs d)) = Some []"
    unfolding d members config_missing_iff [symmetric] by simp
  show "NoBatches \<in> set (validatePrerequisites fetched) \<longleftrightarrow> batches d = []"
    unfolding d members by simp
  show "NoSubjects \<in> set (validatePrerequisites fetched) \<longleftrightarrow> subjects d = []"
    unfolding d members by simp
  show "NoTeachers \<in> set (validatePrerequisites fetched) \<longleftrightarrow> teachers d = []"
    unfolding d members by simp
  show "NoAssignments \<in> set (validatePrerequisites fetched) \<longleftrightarrow> assignments d = []"
    unfolding d members by simp
  show "NoClassrooms \<in> set (validatePrerequisites fetched) \<longleftrightarrow> classrooms d = []"
    unfolding d members by simp
  show "UnableToValidate \<notin> set (validatePrerequisites fetched)"
    unfolding d members by simp
  have wb: "without_batch = (\<lambda>s. subject_batch s = NoBatch \<or> subject_batch s = BatchNumber 0 \<or>
                (\<exists>b. subject_batch s = BatchName b \<and> (\<forall>c \<in> set b. is_space c)))"
    by (rule ext) (rule without_batch_iff)
  show "SubjectsNeedBatch n \<in> set (validatePrerequisites fetched) \<longleftrightarrow>
         subjects d \<noteq> [] \<and> 0 < n \<and>
         n = length (filter (\<lambda>s. subject_batch s = NoBatch \<or> subject_batch s = BatchNumber 0 \<or>
                (\<exists>b. subject_batch s = BatchName b \<and> (\<forall>c \<in> set b. is_space c))) (subjects d))" for n
    unfolding d members wb [symmetric] by auto
  assume missing: "configs d = [] \<or> cfg_start_time (hd (configs d)) = [] \<or>
       cfg_days (hd (configs d)) = None \<or> cfg_days (hd (configs d)) = Some [] \<or>
       cfg_periods (hd (configs d)) = None \<or> cfg_periods (hd (configs d)) = Some [] \<or>
       batches d = [] \<or> subjects d = [] \<or> teachers d = [] \<or> assignments d = [] \<or>
       classrooms d = []"
  have "set (validatePrerequisites fetched) \<noteq> {}"
  proof (cases "config_missing (configs d)")
    case True
    then show ?thesis unfolding d members by simp
  next
    case False
    with missing have "batches d = [] \<or> subjects d = [] \<or> teachers d = [] \<or> assignments d = [] \<or>
       classrooms d = []"
      unfolding config_missing_iff by blast
    then show ?thesis unfolding d members by auto
  qed
  then have "validatePrerequisites fetched \<noteq> []" by auto
  then show "generate_request \<notin> set (snd (handleGenerateTimetable fetched response))"
    by (simp add: blocked_without_request generate_request_not_prerequisite)
qed

text \<open>
  A department with subjects, a batch and a classroom but no schedule configuration, no
  teacher and no assignment: the three issues are reported and the generate request is not
  sent, although the server would answer it with success.
\<close>

theorem handleGenerateTimetable_prerequisites_witness:
  "configs no_configuration = [] \<and>
   validatePrerequisites (Some no_configuration) = [ConfigurationMissing, NoTeachers, NoAssignments] \<and>
   ConfigurationMissing \<in> set (validatePrerequisites (Some no_configuration)) \<and>
   generate_request \<notin> set (snd (handleGenerateTimetable (Some no_configuration)
     (Body ''Timetable generated successfully'' (Some 3)))) \<and>
   genError (fst (handleGenerateTimetable (Some no_configuration)
     (Body ''Timetable generated successfully'' (Some 3))))
     = Some (FixIssues [ConfigurationMissing, NoTeachers, NoAssignments]) \<and>
   genSuccess (fst (handleGenerateTimetable (Some no_configuration)
     (Body ''Timetable generated successfully'' (Some 3)))) = None"
proof -
  let ?r = "Body ''Timetable generated successfully'' (Some 3)"
  have empty: "configs no_configuration = []" by (simp add: no_configuration_def)
  have issues: "validatePrerequisites (Some no_configuration)
      = [ConfigurationMissing, NoTeachers, NoAssignments]"
    by (simp add: validatePrerequisites_def no_configuration_def config_missing_def Let_def
        without_batch_def trim_def is_space_def)
  then have nonempty: "validatePrerequisites (Some no_configuration) \<noteq> []" by simp
  note facts = handleGenerateTimetable_prerequisites [of "Some no_configuration" ?r]
  from facts empty have reported:
    "ConfigurationMissing \<in> set (validatePrerequisites (Some no_configuration))"
    by blast
  from facts empty have blocked:
    "generate_request \<notin> set (snd (handleGenerateTimetable (Some no_configuration) ?r))"
    by blast
  from facts nonempty have "genError (fst (handleGenerateTimetable (Some no_configuration) ?r))
         = Some (FixIssues (validatePrerequisites (Some no_configuration)))"
    and none: "genSuccess (fst (handleGenerateTimetable (Some no_configuration) ?r)) = None"
    by blast+
  then have shown: "genError (fst (handleGenerateTimetable (Some no_configuration) ?r))
         = Some (FixIssues [ConfigurationMissing, NoTeachers, NoAssignments])"
    by (simp only: issues)
  from empty issues reported blocked shown none show ?thesis by (intro conjI)
qed

section \<open>Moving an entry\<close>

lemma move_catch_keeps_data: "timetableData (move_catch code detail st) = timetableData st"
  by (simp add: move_catch_def)

lemma safe_move_catch_keeps_data:
  "timetableData (safe_move_catch code detail msg st) = timetableData st"
  by (simp add: safe_move_catch_def)

lemma onDrop_rejected_state:
  assumes "editMode st" and "draggingEntry st = Some dragged"
  shows "onDrop d index (Rejected code detail msg) latest st
           = (move_catch code detail st)\<lparr>draggingEntry := None\<rparr>"
  using assms by (simp add: onDrop_def)

lemma safe_move_request_rejected:
  "safe_move_request i sd sp (Rejected code detail msg) latest st =
     (if has_id i then safe_move_catch code detail msg st
      else safe_move_catch None None ''Missing entry id'' st)"
  by (simp add: safe_move_request_def)

lemma safe_move_message:
  "message (safe_move_catch code detail msg st) =
     (if code = Some 401 then message st
      else Some (Error,
             case detail of
               Some text \<Rightarrow> if text \<noteq> [] then text else if msg \<noteq> [] then msg else ''Move failed''
             | None \<Rightarrow> if msg \<noteq> [] then msg else ''Move failed''))"
  by (simp add: safe_move_catch_def safe_move_failure_text_def split: option.split)

text \<open>
  Claim C8, as the code has it. The page has two ways to move an entry, dropping it on a
  cell and the button of a safe slot; both send the same move request.

  Dropping (in edit mode, with an entry being dragged): when the move request is rejected
  the timetable of the page is left as it was, and the reported reason is the \<open>detail\<close>
  text of the rejection when it has a non-empty one and the fixed text ``Move failed due to
  constraints'' otherwise (a 401 rejection reports nothing); the timetable of the page
  changes only after the move request has succeeded.

  The button of a safe slot: when the move request is rejected, the move changes nothing
  in the timetable of the page, which is the one it was before the click if the entry has
  an id, and the one fetched before the request if the entry has none; the reported reason
  is the \<open>detail\<close> text when it has a non-empty one, otherwise the message of the error,
  and the fixed text ``Move failed'' when that is empty too (a 401 rejection reports
  nothing and leaves the notice ``Moving to ...''). If no id is found for the entry, no
  request can succeed and ``Missing entry id'' is reported.
\<close>

theorem move_rejected:
  "(editMode st \<and> draggingEntry st = Some dragged \<longrightarrow>
      timetableData (onDrop d index (Rejected code detail msg) latest st) = timetableData st \<and>
      message (onDrop d index (Rejected code detail msg) latest st) =
        (if code = Some 401 then message st
         else Some (Error, case detail of
                             None \<Rightarrow> ''Move failed due to constraints''
                           | Some text \<Rightarrow> if text = [] then ''Move failed due to constraints''
                                         else text))) \<and>
   (timetableData (onDrop d index moved latest st) \<noteq> timetableData st \<longrightarrow>
      (\<exists>u. moved = Resolved u)) \<and>
   timetableData (onSafeSlotClick upper sd sp en refreshed (Rejected code detail msg) latest st) =
     (if has_id (entry_id en) then timetableData st
      else case refreshed of
             Resolved data \<Rightarrow> Some data
           | Rejected code' detail' msg' \<Rightarrow> timetableData st) \<and>
   (has_id (entry_id en) \<longrightarrow>
      message (onSafeSlotClick upper sd sp en refreshed (Rejected code detail msg) latest st) =
        (if code = Some 401
         then Some (Info, ''Moving to '' @ sd @ [CHR '' '', CHR 0xB7, CHR '' '', CHR ''P'']
                            @ string_of_nat sp @ ''...'')
         else Some (Error,
                case detail of
                  Some text \<Rightarrow> if text \<noteq> [] then text else if msg \<noteq> [] then msg else ''Move failed''
                | None \<Rightarrow> if msg \<noteq> [] then msg else ''Move failed''))) \<and>
   (\<not> has_id (entry_id en) \<longrightarrow>
      (\<forall>data. refreshed = Resolved data \<longrightarrow>
         (\<forall>e. find_refreshed upper en (entries data) = Some e \<and> has_id (entry_id e) \<longrightarrow>
            message (onSafeSlotClick upper sd sp en refreshed (Rejected code detail msg) latest st) =
              (if code = Some 401
               then Some (Info, ''Moving to '' @ sd @ [CHR '' '', CHR 0xB7, CHR '' '', CHR ''P'']
                                  @ string_of_nat sp @ ''...'')
               else Some (Error,
                      case detail of
                        Some text \<Rightarrow>
                          if text \<noteq> [] then text else if msg \<noteq> [] then msg else ''Move failed''
                      | None \<Rightarrow> if msg \<noteq> [] then msg else ''Move failed''))) \<and>
         ((find_refreshed upper en (entries data) = None \<or>
           (\<exists>e. find_refreshed upper en (entries data) = Some e \<and> \<not> has_id (entry_id e))) \<longrightarrow>
            onSafeSlotClick upper sd sp en refreshed moved latest st =
              st\<lparr>moveDay := sd, movePeriod := Some sp, timetableData := Some data,
                 message := Some (Error, ''Missing entry id'')\<rparr>))) \<and>
   (timetableData (onSafeSlotClick upper sd sp en refreshed moved latest st)
      \<notin> {timetableData st} \<union> (case refreshed of Resolved data \<Rightarrow> {Some data}
                                  | Rejected code' detail' msg' \<Rightarrow> {}) \<longrightarrow>
      (\<exists>u. moved = Resolved u))"
proof (intro conjI impI allI)
  assume a: "editMode st \<and> draggingEntry st = Some dragged"
  then have eq: "onDrop d index (Rejected code detail msg) latest st
           = (move_catch code detail st)\<lparr>draggingEntry := None\<rparr>"
    by (simp add: onDrop_rejected_state)
  show "timetableData (onDrop d index (Rejected code detail msg) latest st) = timetableData st"
    by (simp add: eq move_catch_keeps_data)
  show "message (onDrop d index (Rejected code detail msg) latest st) =
        (if code = Some 401 then message st
         else Some (Error, case detail of
                             None \<Rightarrow> ''Move failed due to constraints''
                           | Some text \<Rightarrow> if text = [] then ''Move failed due to constraints''
                                         else text))"
    by (simp add: eq move_catch_def move_failure_text_def split: option.split)
next
  assume changed: "timetableData (onDrop d index moved latest st) \<noteq> timetableData st"
  show "\<exists>u. moved = Resolved u"
  proof (cases moved)
    case (Resolved u)
    then show ?thesis by blast
  next
    case (Rejected c dt m)
    have "timetableData (onDrop d index (Rejected c dt m) latest st) = timetableData st"
      by (simp add: onDrop_def move_catch_keeps_data split: option.split)
    with changed Rejected show ?thesis by simp
  qed
next
  show "timetableData (onSafeSlotClick upper sd sp en refreshed (Rejected code detail msg) latest st) =
     (if has_id (entry_id en) then timetableData st
      else case refreshed of
             Resolved data \<Rightarrow> Some data
           | Rejected code' detail' msg' \<Rightarrow> timetableData st)"
    by (simp add: onSafeSlotClick_def Let_def safe_move_request_rejected safe_move_catch_keeps_data
        split: outcome.split)
next
  assume "has_id (entry_id en)"
  then show "message (onSafeSlotClick upper sd sp en refreshed (Rejected code detail msg) latest st) =
        (if code = Some 401
         then Some (Info, ''Moving to '' @ sd @ [CHR '' '', CHR 0xB7, CHR '' '', CHR ''P'']
                            @ string_of_nat sp @ ''...'')
         else Some (Error,
                case detail of
                  Some text \<Rightarrow> if text \<noteq> [] then text else if msg \<noteq> [] then msg else ''Move failed''
                | None \<Rightarrow> if msg \<noteq> [] then msg else ''Move failed''))"
    by (simp add: onSafeSlotClick_def Let_def safe_move_request_rejected safe_move_message)
next
  fix data e
  assume no: "\<not> has_id (entry_id en)" and r: "refreshed = Resolved data"
    and f: "find_refreshed upper en (entries data) = Some e \<and> has_id (entry_id e)"
  then show "message (onSafeSlotClick upper sd sp en refreshed (Rejected code detail msg) latest st) =
              (if code = Some 401
               then Some (Info, ''Moving to '' @ sd @ [CHR '' '', CHR 0xB7, CHR '' '', CHR ''P'']
                                  @ string_of_nat sp @ ''...'')
               else Some (Error,
                      case detail of
                        Some text \<Rightarrow>
                          if text \<noteq> [] then text else if msg \<noteq> [] then msg else ''Move failed''
                      | None \<Rightarrow> if msg \<noteq> [] then msg else ''Move failed''))"
    by (simp add: onSafeSlotClick_def Let_def safe_move_request_rejected safe_move_message)
next
  fix data
  assume no: "\<not> has_id (entry_id en)" and r: "refreshed = Resolved data"
    and f: "find_refreshed upper en (entries data) = None \<or>
           (\<exists>e. find_refreshed upper en (entries data) = Some e \<and> \<not> has_id (entry_id e))"
  from f have "\<not> has_id (case find_refreshed upper en (entries data) of
                     None \<Rightarrow> None | Some e \<Rightarrow> entry_id e)"
    by (auto simp: has_id_def)
  with no r show "onSafeSlotClick upper sd sp en refreshed moved latest st =
              st\<lparr>moveDay := sd, movePeriod := Some sp, timetableData := Some data,
                 message := Some (Error, ''Missing entry id'')\<rparr>"
    by (simp add: onSafeSlotClick_def Let_def safe_move_request_def safe_move_catch_def
        safe_move_failure_text_def)
next
  assume changed: "timetableData (onSafeSlotClick upper sd sp en refreshed moved latest st)
      \<notin> {timetableData st} \<union> (case refreshed of Resolved data \<Rightarrow> {Some data}
                                  | Rejected code' detail' msg' \<Rightarrow> {})"
  show "\<exists>u. moved = Resolved u"
  proof (cases moved)
    case (Resolved u)
    then show ?thesis by blast
  next
    case (Rejected c dt m)
    have "timetableData (onSafeSlotClick upper sd sp en refreshed (Rejected c dt m) latest st)
        \<in> {timetableData st} \<union> (case refreshed of Resolved data \<Rightarrow> {Some data}
                                  | Rejected code' detail' msg' \<Rightarrow> {})"
      by (simp add: onSafeSlotClick_def Let_def safe_move_request_rejected
          safe_move_catch_keeps_data split: outcome.split)
    with changed Rejected show ?thesis by simp
  qed
qed

text \<open>
  The page in edit mode with its one entry being dragged. The server rejects the drop on
  Tuesday with a detail text: the entry stays on Monday in period 1 and the detail text is
  shown. The server rejects the move by the button of the safe slot on Tuesday without a
  detail: the timetable is as before and the message of the error is shown.
\<close>

theorem move_rejected_witness:
  "editMode one_entry_page \<and> draggingEntry one_entry_page = Some dbs_monday \<and>
   has_id (entry_id dbs_monday) \<and>
   timetableData (onDrop ''Tue'' 0 (Rejected (Some 400) (Some ''Teacher conflict'')
       ''Request failed with status code 400'') (Resolved refreshed_timetable) one_entry_page)
     = timetableData one_entry_page \<and>
   message (onDrop ''Tue'' 0 (Rejected (Some 400) (Some ''Teacher conflict'')
       ''Request failed with status code 400'') (Resolved refreshed_timetable) one_entry_page)
     = Some (Error, ''Teacher conflict'') \<and>
   timetableData (onSafeSlotClick id ''Tue'' 1 dbs_monday (Resolved refreshed_timetable)
       (Rejected (Some 400) None ''Request failed with status code 400'')
       (Resolved refreshed_timetable) one_entry_page)
     = timetableData one_entry_page \<and>
   message (onSafeSlotClick id ''Tue'' 1 dbs_monday (Resolved refreshed_timetable)
       (Rejected (Some 400) None ''Request failed with status code 400'')
       (Resolved refreshed_timetable) one_entry_page)
     = Some (Error, ''Request failed with status code 400'')"
proof -
  have em: "editMode one_entry_page \<and> draggingEntry one_entry_page = Some dbs_monday"
    by (simp add: one_entry_page_def)
  have hid: "has_id (entry_id dbs_monday)"
    by (simp add: has_id_def dbs_monday_def)
  note drop = move_rejected [of one_entry_page dbs_monday "''Tue''" 0 "Some 400"
      "Some ''Teacher conflict''" "''Request failed with status code 400''"
      "Resolved refreshed_timetable"]
  from drop em have d1: "timetableData (onDrop ''Tue'' 0 (Rejected (Some 400) (Some ''Teacher conflict'')
       ''Request failed with status code 400'') (Resolved refreshed_timetable) one_entry_page)
     = timetableData one_entry_page"
    by blast
  from drop em have "message (onDrop ''Tue'' 0 (Rejected (Some 400) (Some ''Teacher conflict'')
       ''Request failed with status code 400'') (Resolved refreshed_timetable) one_entry_page)
     = (if Some (400::nat) = Some 401 then message one_entry_page
         else Some (Error, case Some ''Teacher conflict'' of
                             None \<Rightarrow> ''Move failed due to constraints''
                           | Some text \<Rightarrow> if text = [] then ''Move failed due to constraints''
                                         else text))"
    by blast
  then have d2: "message (onDrop ''Tue'' 0 (Rejected (Some 400) (Some ''Teacher conflict'')
       ''Request failed with status code 400'') (Resolved refreshed_timetable) one_entry_page)
     = Some (Error, ''Teacher conflict'')"
    by simp
  note click = move_rejected [of one_entry_page dbs_monday "''Tue''" 0 "Some 400" None
      "''Request failed with status code 400''" "Resolved refreshed_timetable" _ id "''Tue''" 1
      dbs_monday "Resolved refreshed_timetable"]
  from click have "timetableData (onSafeSlotClick id ''Tue'' 1 dbs_monday (Resolved refreshed_timetable)
       (Rejected (Some 400) None ''Request failed with status code 400'')
       (Resolved refreshed_timetable) one_entry_page)
     = (if has_id (entry_id dbs_monday) then timetableData one_entry_page
        else case Resolved refreshed_timetable of
             Resolved data \<Rightarrow> Some data
           | Rejected code' detail' msg' \<Rightarrow> timetableData one_entry_page)"
    by blast
  with hid have s1: "timetableData (onSafeSlotClick id ''Tue'' 1 dbs_monday (Resolved refreshed_timetable)
       (Rejected (Some 400) None ''Request failed with status code 400'')
       (Resolved refreshed_timetable) one_entry_page)
     = timetableData one_entry_page"
    by simp
  from click hid have "message (onSafeSlotClick id ''Tue'' 1 dbs_monday (Resolved refreshed_timetable)
       (Rejected (Some 400) None ''Request failed with status code 400'')
       (Resolved refreshed_timetable) one_entry_page)
     = (if Some (400::nat) = Some 401
         then Some (Info, ''Moving to '' @ ''Tue'' @ [CHR '' '', CHR 0xB7, CHR '' '', CHR ''P'']
                            @ string_of_nat 1 @ ''...'')
         else Some (Error,
                case None of
                  Some text \<Rightarrow> if text \<noteq> [] then text
                               else if ''Request failed with status code 400'' \<noteq> []
                                    then ''Request failed with status code 400'' else ''Move failed''
                | None \<Rightarrow> if ''Request failed with status code 400'' \<noteq> []
                           then ''Request failed with status code 400'' else ''Move failed''))"
    by blast
  then have s2: "message (onSafeSlotClick id ''Tue'' 1 dbs_monday (Resolved refreshed_timetable)
       (Rejected (Some 400) None ''Request failed with status code 400'')
       (Resolved refreshed_timetable) one_entry_page)
     = Some (Error, ''Request failed with status code 400'')"
    by simp
  from em hid d1 d2 s1 s2 show ?thesis by (intro conjI) simp_all
qed

text \<open>
  The drop rejected with a body that has no \<open>detail\<close> member: the reported reason is the
  fixed text, whatever constraint the server found violated. The button of a safe slot
  under an entry without id, whose move is rejected: the timetable of the page is no longer
  the one it was, it is the one fetched before the request.
\<close>

theorem move_rejected_counterexample:
  "message (onDrop ''Tue'' 0 (Rejected (Some 400) None ''Request failed with status code 400'')
       (Resolved refreshed_timetable) one_entry_page)
     = Some (Error, ''Move failed due to constraints'') \<and>
   timetableData (onSafeSlotClick id ''Tue'' 1 (dbs_monday\<lparr>entry_id := None\<rparr>)
       (Resolved refreshed_timetable)
       (Rejected (Some 400) (Some ''Teacher conflict'') ''Request failed with status code 400'')
       (Resolved refreshed_timetable) one_entry_page)
     = Some refreshed_timetable \<and>
   Some refreshed_timetable \<noteq> timetableData one_entry_page \<and>
   message (onSafeSlotClick id ''Tue'' 1 (dbs_monday\<lparr>entry_id := None\<rparr>)
       (Resolved refreshed_timetable)
       (Rejected (Some 400) (Some ''Teacher conflict'') ''Request failed with status code 400'')
       (Resolved refreshed_timetable) one_entry_page)
     = Some (Error, ''Teacher conflict'')"
  by (simp add: onDrop_def move_catch_def move_failure_text_def one_entry_page_def
      onSafeSlotClick_def Let_def has_id_def safe_move_request_def safe_move_catch_def
      safe_move_failure_text_def find_refreshed_def refreshed_timetable_def dbs_monday_def)

section \<open>The Subject and Teacher Details table\<close>

subsection \<open>Order of first appearance\<close>







subsection \<open>Enumeration order\<close>








subsection \<open>The grouping loop\<close>








subsection \<open>The rows\<close>






subsection \<open>Sample entries\<close>






subsection \<open>Two subjects\<close>




section \<open>Saving and loading unavailable periods\<close>

lemma findIndex_nth:
  "distinct xs \<Longrightarrow> j < length xs \<Longrightarrow> findIndex (\<lambda>p. p = xs ! j) xs = Some j"
proof (induction xs arbitrary: j)
  case Nil
  then show ?case by simp
next
  case (Cons x xs)
  show ?case
  proof (cases j)
    case 0
    then show ?thesis by simp
  next
    case (Suc k)
    with Cons.prems have "xs ! k \<in> set xs" "x \<notin> set xs" by simp_all
    then have "x \<noteq> xs ! k" by blast
    with Suc Cons show ?thesis by simp
  qed
qed

lemma set_selected:
  "set (selected st) = {(d, i). \<exists>ps. (d, ps) \<in> set st \<and> i \<in> fst ` set ps}"
  by (auto simp: selected_def image_iff) force+

lemma marks_distinct:
  "distinct (map fst st) \<Longrightarrow> marks st = set (selected st)"
  by (auto simp: marks_def set_selected)

subsection \<open>Saving\<close>

lemma push_time_distinct: "distinct (map fst r) \<Longrightarrow> distinct (map fst (push_time d t r))"
  by (simp add: push_time_def distinct_update)

lemma stored_times_push: "stored_times (push_time d t r) = insert (d, t) (stored_times r)"
  by (auto simp: stored_times_def push_time_def update_conv' split: option.splits if_splits)

lemma convert_cell_distinct:
  "distinct (map fst r) \<Longrightarrow> distinct (map fst (convert_cell ts d r cell))"
  by (cases cell) (simp add: convert_cell_def Let_def push_time_distinct)

lemma stored_times_convert_cell:
  "stored_times (convert_cell ts d r cell) =
     stored_times r \<union> {d} \<times> {t. time_of_index ts d (fst cell) = Some t}"
  by (cases cell) (auto simp: convert_cell_def time_of_index_def Let_def stored_times_push)

lemma convert_day_distinct:
  "distinct (map fst r) \<Longrightarrow> distinct (map fst (foldl (convert_cell ts d) r cs))"
  by (induction cs arbitrary: r) (simp_all add: convert_cell_distinct)

lemma stored_times_convert_day:
  "stored_times (foldl (convert_cell ts d) r cs) =
     stored_times r \<union> {d} \<times> {t. \<exists>i \<in> fst ` set cs. time_of_index ts d i = Some t}"
  by (induction cs arbitrary: r) (auto simp: stored_times_convert_cell)

lemma convert_all_distinct:
  "distinct (map fst r) \<Longrightarrow>
   distinct (map fst (foldl (\<lambda>result (d, periodsObj).
      foldl (convert_cell ts d) result (sort_key fst periodsObj)) r st))"
  by (induction st arbitrary: r) (auto simp: convert_day_distinct)

lemma stored_times_convert_all:
  "stored_times (foldl (\<lambda>result (d, periodsObj).
      foldl (convert_cell ts d) result (sort_key fst periodsObj)) r st) =
   stored_times r \<union> {(d, t). \<exists>i. (d, i) \<in> set (selected st) \<and> time_of_index ts d i = Some t}"
proof (induction st arbitrary: r)
  case Nil
  show ?case by (simp add: selected_def)
next
  case (Cons a st)
  obtain d ps where a: "a = (d, ps)" by (cases a)
  have sel: "set (selected (a # st)) = {(d, i) | i. i \<in> fst ` set ps} \<union> set (selected st)"
    by (auto simp: a selected_def image_iff) force+
  show ?case
    unfolding sel by (auto simp: a Cons.IH stored_times_convert_day)
qed


subsection \<open>Loading\<close>

lemma set_update_subset: "set (AList.update k v al) \<subseteq> insert (k, v) (set al)"
  by (induction al) auto

lemma load_time_keys:
  "fst ` set (load_time ts d ds t) = fst ` set ds \<union> {i. index_of_time ts d t = Some i}"
  by (auto simp: load_time_def index_of_time_def dom_update split: option.splits)

lemma load_time_distinct:
  "distinct (map fst ds) \<Longrightarrow> distinct (map fst (load_time ts d ds t))"
  by (simp add: load_time_def distinct_update split: option.splits)

lemma load_time_modes:
  "snd ` set ds \<subseteq> {''mandatory''} \<Longrightarrow> snd ` set (load_time ts d ds t) \<subseteq> {''mandatory''}"
  using set_update_subset [of _ "''mandatory''" ds]
  by (fastforce simp: load_time_def split: option.splits)

lemma load_day_keys:
  "fst ` set (foldl (load_time ts d) ds tms) =
     fst ` set ds \<union> {i. \<exists>t \<in> set tms. index_of_time ts d t = Some i}"
  by (induction tms arbitrary: ds) (auto simp: load_time_keys)

lemma load_day_distinct:
  "distinct (map fst ds) \<Longrightarrow> distinct (map fst (foldl (load_time ts d) ds tms))"
  by (induction tms arbitrary: ds) (simp_all add: load_time_distinct)

lemma load_day_modes:
  "snd ` set ds \<subseteq> {''mandatory''} \<Longrightarrow>
   snd ` set (foldl (load_time ts d) ds tms) \<subseteq> {''mandatory''}"
  by (induction tms arbitrary: ds) (simp_all add: load_time_modes)

text \<open>The state of the loader: days and period indices are keys of objects, every mode is
  \<open>mandatory\<close>.\<close>

lemma marks_update:
  assumes X: "fst ` set X = (case map_of ns d of None \<Rightarrow> {} | Some old \<Rightarrow> fst ` set old) \<union> new"
  shows "marks (AList.update d X ns) = marks ns \<union> {d} \<times> new"
proof -
  have here: "{p \<in> marks ns. fst p = d}
      = {d} \<times> (case map_of ns d of None \<Rightarrow> {} | Some old \<Rightarrow> fst ` set old)"
    by (auto simp: marks_def split: option.splits)
  have pt: "\<And>d' i. ((d', i) \<in> marks (AList.update d X ns))
      = (if d' = d then i \<in> fst ` set X else (d', i) \<in> marks ns)"
    by (simp add: marks_def update_conv')
  have "marks (AList.update d X ns) = {p \<in> marks ns. fst p \<noteq> d} \<union> {d} \<times> fst ` set X"
    by (rule set_eqI) (simp add: pt split_paired_all)
  also have "\<dots> = {p \<in> marks ns. fst p \<noteq> d} \<union> {p \<in> marks ns. fst p = d} \<union> {d} \<times> new"
    unfolding X here by auto
  also have "\<dots> = marks ns \<union> {d} \<times> new" by blast
  finally show ?thesis .
qed

lemma load_day_ok: "day_state_ok ds \<Longrightarrow> day_state_ok (foldl (load_time ts d) ds tms)"
  by (simp add: day_state_ok_def load_day_distinct load_day_modes)

lemma state_ok_update:
  assumes "state_ok ns" "day_state_ok X"
  shows "state_ok (AList.update d X ns)"
proof -
  have "\<And>p. p \<in> set (AList.update d X ns) \<Longrightarrow> p = (d, X) \<or> p \<in> set ns"
    using set_update_subset [of d X ns] by blast
  with assms have "\<forall>(d', ds) \<in> set (AList.update d X ns). day_state_ok ds"
    unfolding state_ok_def by fastforce
  moreover from assms have "distinct (map fst (AList.update d X ns))"
    by (simp add: state_ok_def distinct_update)
  ultimately show ?thesis by (simp add: state_ok_def)
qed

lemma state_ok_lookup:
  assumes "state_ok ns"
  shows "day_state_ok (case map_of ns d of None \<Rightarrow> [] | Some dayState \<Rightarrow> dayState)"
proof (cases "map_of ns d")
  case None
  then show ?thesis by (simp add: day_state_ok_def)
next
  case (Some dayState)
  then have "(d, dayState) \<in> set ns" by (rule map_of_SomeD)
  with assms have "day_state_ok dayState" unfolding state_ok_def by blast
  with Some show ?thesis by simp
qed

lemma load_all:
  "state_ok ns \<Longrightarrow>
   state_ok (foldl (\<lambda>newState (d, tms).
                    AList.update d
                      (foldl (load_time ts d)
                         (case map_of newState d of None \<Rightarrow> [] | Some dayState \<Rightarrow> dayState) tms)
                      newState) ns dayData) \<and>
   marks (foldl (\<lambda>newState (d, tms).
                    AList.update d
                      (foldl (load_time ts d)
                         (case map_of newState d of None \<Rightarrow> [] | Some dayState \<Rightarrow> dayState) tms)
                      newState) ns dayData)
     = marks ns \<union>
         {(d, i). \<exists>tms t. (d, tms) \<in> set dayData \<and> t \<in> set tms \<and> index_of_time ts d t = Some i}"
proof (induction dayData arbitrary: ns)
  case Nil
  then show ?case by simp
next
  case (Cons a dayData)
  obtain d tms where a: "a = (d, tms)" by (cases a)
  let ?old = "case map_of ns d of None \<Rightarrow> [] | Some dayState \<Rightarrow> dayState"
  let ?X = "foldl (load_time ts d) ?old tms"
  let ?ns' = "AList.update d ?X ns"
  have X: "day_state_ok ?X"
    using Cons.prems by (intro load_day_ok state_ok_lookup)
  have keys: "fst ` set ?X = (case map_of ns d of None \<Rightarrow> {} | Some old \<Rightarrow> fst ` set old)
      \<union> {i. \<exists>t \<in> set tms. index_of_time ts d t = Some i}"
    by (simp add: load_day_keys split: option.splits)
  have m: "marks ?ns' = marks ns \<union> {d} \<times> {i. \<exists>t \<in> set tms. index_of_time ts d t = Some i}"
    by (rule marks_update [OF keys])
  have pre: "state_ok ?ns'"
    using Cons.prems X by (rule state_ok_update)
  have split_set: "{(d', i). \<exists>tms' t. (d', tms') \<in> set (a # dayData) \<and> t \<in> set tms' \<and> index_of_time ts d' t = Some i}
      = {d} \<times> {i. \<exists>t \<in> set tms. index_of_time ts d t = Some i} \<union>
        {(d', i). \<exists>tms' t. (d', tms') \<in> set dayData \<and> t \<in> set tms' \<and> index_of_time ts d' t = Some i}"
    unfolding a by auto
  have step: "foldl (\<lambda>newState (d, tms).
                    AList.update d
                      (foldl (load_time ts d)
                         (case map_of newState d of None \<Rightarrow> [] | Some dayState \<Rightarrow> dayState) tms)
                      newState) ns (a # dayData)
      = foldl (\<lambda>newState (d, tms).
                    AList.update d
                      (foldl (load_time ts d)
                         (case map_of newState d of None \<Rightarrow> [] | Some dayState \<Rightarrow> dayState) tms)
                      newState) ?ns' dayData"
    unfolding a by simp
  from Cons.IH [OF pre] show ?case
    unfolding step split_set m by (simp add: Un_assoc)
qed

subsection \<open>The round trip\<close>

lemma length_slot_labels: "length (slot_labels n t d) = n"
  by (induction n arbitrary: t) simp_all

lemma slot_labels_nonempty: "l \<in> set (slot_labels n t d) \<Longrightarrow> l \<noteq> []"
  by (induction n arbitrary: t) auto

lemma length_day_slots: "cfg_periods c = Some ps \<Longrightarrow> length (day_slots c) = length ps"
  by (simp add: day_slots_def Let_def length_slot_labels split: option.splits)

lemma day_slots_nonempty: "l \<in> set (day_slots c) \<Longrightarrow> l \<noteq> []"
  by (auto simp: day_slots_def Let_def slot_labels_nonempty split: option.splits)

lemma map_of_generateTimeSlots:
  assumes "cfg_start_time c \<noteq> []" "cfg_class_duration c \<noteq> 0" "cfg_periods c = Some ps"
  shows "map_of (generateTimeSlots (Some c)) d
         = (if d \<in> set (config_days c) then Some (day_slots c) else None)"
proof -
  have "map_of (map (\<lambda>x. (x, v)) ds) d = (if d \<in> set ds then Some v else None)" for ds and v :: "string list"
    by (induction ds) auto
  with assms show ?thesis by (simp add: generateTimeSlots_def)
qed

text \<open>
  Claim C9, as the code has it. Under a configuration that has a start time, a class
  duration and periods, take a selection whose days are days of the configuration and
  whose period indices lie within the configured number of periods, and let the labels of a
  day's periods be pairwise different. Then saving stores, for each selected cell, the
  label of that period as derived from the configuration (and nothing else), and loading
  what was saved gives back exactly the selected cells, each marked \<open>mandatory\<close>.
\<close>

theorem availability_round_trip:
  assumes valid: "cfg_start_time c \<noteq> []" "cfg_class_duration c \<noteq> 0" "cfg_periods c = Some ps"
    and dist: "distinct (day_slots c)"
    and sel: "\<forall>(d, i) \<in> set (selected st). d \<in> set (config_days c) \<and> i < length ps"
  shows "stored_times (convertAvailability (Some c) st)
           = {(d, day_slots c ! i) | d i. (d, i) \<in> set (selected st)} \<and>
         set (selected (loadAvailability (Some c) (saved_periods (Some c) st)))
           = set (selected st) \<and>
         state_ok (loadAvailability (Some c) (saved_periods (Some c) st))"
proof -
  let ?ts = "generateTimeSlots (Some c)"
  let ?conv = "convertAvailability (Some c) st"
  let ?loaded = "loadAvailability (Some c) (saved_periods (Some c) st)"
  have slot: "time_of_index ?ts d i = Some (day_slots c ! i)
      \<and> index_of_time ?ts d (day_slots c ! i) = Some i"
    if "(d, i) \<in> set (selected st)" for d i
  proof -
    from that sel have d: "d \<in> set (config_days c)" and i: "i < length (day_slots c)"
      by (auto simp: length_day_slots [OF valid(3)])
    from i have "day_slots c ! i \<in> set (day_slots c)" by (rule nth_mem)
    then have "day_slots c ! i \<noteq> []" by (rule day_slots_nonempty)
    with d i show ?thesis
      by (simp add: time_of_index_def index_of_time_def map_of_generateTimeSlots [OF valid]
          findIndex_nth [OF dist])
  qed
  have conv: "?conv = foldl (\<lambda>result (d, periodsObj).
      foldl (convert_cell ?ts d) result (sort_key fst periodsObj)) [] st"
    by (simp add: convertAvailability_def)
  have "stored_times ?conv
      = {(d, t). \<exists>i. (d, i) \<in> set (selected st) \<and> time_of_index ?ts d i = Some t}"
    unfolding conv stored_times_convert_all by (simp add: stored_times_def)
  also have "\<dots> = {(d, day_slots c ! i) | d i. (d, i) \<in> set (selected st)}"
    using slot by auto
  finally have saved: "stored_times ?conv = {(d, day_slots c ! i) | d i. (d, i) \<in> set (selected st)}" .
  have cd: "distinct (map fst ?conv)"
    unfolding conv by (rule convert_all_distinct) simp
  have ld: "?loaded = foldl (\<lambda>newState (d, tms).
                    AList.update d
                      (foldl (load_time ?ts d)
                         (case map_of newState d of None \<Rightarrow> [] | Some dayState \<Rightarrow> dayState) tms)
                      newState) [] ?conv"
    by (simp add: loadAvailability_def saved_periods_def)
  have empty_ok: "state_ok []" by (simp add: state_ok_def)
  from load_all [OF empty_ok, of ?ts ?conv]
  have ok: "state_ok ?loaded"
    and m: "marks ?loaded = {(d, i). \<exists>tms t. (d, tms) \<in> set ?conv \<and> t \<in> set tms
                                \<and> index_of_time ?ts d t = Some i}"
    unfolding ld by (simp_all add: marks_def)
  have "marks ?loaded = {(d, i). \<exists>t. (d, t) \<in> stored_times ?conv \<and> index_of_time ?ts d t = Some i}"
    unfolding m stored_times_def using cd by auto
  also have "\<dots> = {(d, i). \<exists>j. (d, j) \<in> set (selected st)
                        \<and> index_of_time ?ts d (day_slots c ! j) = Some i}"
    unfolding saved by auto
  also have "\<dots> = set (selected st)"
    using slot by auto
  finally have "marks ?loaded = set (selected st)" .
  moreover from ok have "marks ?loaded = set (selected ?loaded)"
    by (intro marks_distinct) (simp add: state_ok_def)
  ultimately show ?thesis using saved ok by simp
qed

lemmas eval_clock = clock_def minute_of_day_def format12_def padStart2_def string_of_nat.simps
  digit_char_def Let_def

lemma time_of_day_0800: "time_of_day ''08:00:00'' = Some 480"
  by (simp add: time_of_day_def two_digits_def Number_def digit_val_def)

lemma day_slots_hourly:
  "day_slots hourly_config = [''8:00 AM - 9:00 AM'', ''9:00 AM - 10:00 AM'', ''10:00 AM - 11:00 AM'']"
  by (simp add: day_slots_def hourly_config_def time_of_day_0800 eval_clock numeral_3_eq_3)

lemma day_slots_half_day:
  "day_slots half_day_config = [''8:00 AM - 8:00 PM'', ''8:00 PM - 8:00 AM'', ''8:00 AM - 8:00 PM'']"
  by (simp add: day_slots_def half_day_config_def time_of_day_0800 eval_clock numeral_3_eq_3)

text \<open>
  Three hourly periods from 08:00 on Monday and Tuesday, with Tuesday's third and first
  period selected: the labels differ, the two labels are stored, and loading gives the two
  cells back.
\<close>

theorem availability_round_trip_witness:
  "distinct (day_slots hourly_config) \<and>
   selected [(''Tue'', [(2, ''mandatory''), (0, ''mandatory'')])] = [(''Tue'', 2), (''Tue'', 0)] \<and>
   ''Tue'' \<in> set (config_days hourly_config) \<and>
   stored_times (convertAvailability (Some hourly_config)
       [(''Tue'', [(2, ''mandatory''), (0, ''mandatory'')])])
     = {(''Tue'', ''10:00 AM - 11:00 AM''), (''Tue'', ''8:00 AM - 9:00 AM'')} \<and>
   set (selected (loadAvailability (Some hourly_config)
       (saved_periods (Some hourly_config) [(''Tue'', [(2, ''mandatory''), (0, ''mandatory'')])])))
     = {(''Tue'', 2), (''Tue'', 0)}"
proof -
  let ?st = "[(''Tue'', [(2::nat, ''mandatory''), (0, ''mandatory'')])]"
  have v: "cfg_start_time hourly_config \<noteq> []" "cfg_class_duration hourly_config \<noteq> 0"
    "cfg_periods hourly_config = Some [''1'', ''2'', ''3'']"
    by (simp_all add: hourly_config_def)
  have d: "distinct (day_slots hourly_config)" by (simp add: day_slots_hourly)
  have s: "selected ?st = [(''Tue'', 2), (''Tue'', 0)]" by (simp add: selected_def)
  have tue: "''Tue'' \<in> set (config_days hourly_config)"
    by (simp add: config_days_def hourly_config_def)
  have sel: "\<forall>(d, i) \<in> set (selected ?st). d \<in> set (config_days hourly_config)
      \<and> i < length [''1'', ''2'', ''3'']"
    using tue by (simp add: s)
  note rt = availability_round_trip [OF v d sel]
  from rt have "stored_times (convertAvailability (Some hourly_config) ?st)
      = {(d, day_slots hourly_config ! i) | d i. (d, i) \<in> set (selected ?st)}"
    by (rule conjunct1)
  also have "\<dots> = {(''Tue'', day_slots hourly_config ! 2), (''Tue'', day_slots hourly_config ! 0)}"
    by (auto simp: s)
  also have "\<dots> = {(''Tue'', ''10:00 AM - 11:00 AM''), (''Tue'', ''8:00 AM - 9:00 AM'')}"
    by (simp add: day_slots_hourly)
  finally have stored: "stored_times (convertAvailability (Some hourly_config) ?st)
      = {(''Tue'', ''10:00 AM - 11:00 AM''), (''Tue'', ''8:00 AM - 9:00 AM'')}" .
  from rt have "set (selected (loadAvailability (Some hourly_config)
       (saved_periods (Some hourly_config) ?st))) = set (selected ?st)"
    by blast
  then have reloaded: "set (selected (loadAvailability (Some hourly_config)
       (saved_periods (Some hourly_config) ?st))) = {(''Tue'', 2), (''Tue'', 0)}"
    by (simp add: s)
  from d s tue stored reloaded show ?thesis by (intro conjI)
qed

text \<open>
  Three periods of twelve hours from 08:00: the third period (index 2, within the three
  configured periods) has the label of the first, so it is loaded as index 0.
\<close>

theorem availability_round_trip_counterexample:
  "cfg_periods half_day_config = Some [''1'', ''2'', ''3''] \<and>
   selected [(''Mon'', [(2, ''mandatory'')])] = [(''Mon'', 2)] \<and>
   convertAvailability (Some half_day_config) [(''Mon'', [(2, ''mandatory'')])]
     = [(''Mon'', [''8:00 AM - 8:00 PM''])] \<and>
   selected (loadAvailability (Some half_day_config)
       (saved_periods (Some half_day_config) [(''Mon'', [(2, ''mandatory'')])]))
     = [(''Mon'', 0)]"
proof -
  have ts: "generateTimeSlots (Some half_day_config)
      = [(''Mon'', day_slots half_day_config), (''Tue'', day_slots half_day_config)]"
    by (simp add: generateTimeSlots_def config_days_def half_day_config_def)
  have conv: "convertAvailability (Some half_day_config) [(''Mon'', [(2, ''mandatory'')])]
     = [(''Mon'', [''8:00 AM - 8:00 PM''])]"
    by (simp add: convertAvailability_def ts day_slots_half_day convert_cell_def push_time_def)
  have ld: "loadAvailability (Some half_day_config)
       (saved_periods (Some half_day_config) [(''Mon'', [(2, ''mandatory'')])])
     = [(''Mon'', [(0, ''mandatory'')])]"
    by (simp add: loadAvailability_def saved_periods_def conv ts day_slots_half_day load_time_def)
  have ps: "cfg_periods half_day_config = Some [''1'', ''2'', ''3'']"
    by (simp add: half_day_config_def)
  show ?thesis
    unfolding ld conv ps by (simp add: selected_def)
qed

section \<open>The scheduling engine\<close>

subsection \<open>Candidates\<close>


lemma distinct_required_periods: "distinct (required_periods s p)"
  by (simp add: required_periods_def)




lemma teacher_keys_block:
  "map teacher_key (block s d p r) = map (\<lambda>q. (session_teacher s, d, q)) (required_periods s p)"
  by (simp add: block_def teacher_key_def comp_def)

lemma room_keys_block:
  "map room_key (block s d p r) = map (\<lambda>q. (r, d, q)) (required_periods s p)"
  by (simp add: block_def room_key_def comp_def)

lemma in_concat_map: "x \<in> set (concat (map f xs)) \<longleftrightarrow> (\<exists>y \<in> set xs. x \<in> set (f y))"
  by auto

lemma candidates_iff:
  "(d, p, r) \<in> set (candidates inp rules st s) \<longleftrightarrow>
     d \<in> set (working_days (the_calendar inp)) \<and>
     1 \<le> p \<and> p \<le> periods_per_day (the_calendar inp) \<and>
     (\<exists>x \<in> set (room_list inp). room_name x = r \<and> legal inp rules st s d p x)"
  (is "?lhs \<longleftrightarrow> ?rhs")
proof
  assume ?lhs
  then obtain d' p' where d': "d' \<in> set (working_days (the_calendar inp))"
    and p': "p' \<in> set [1..<Suc (periods_per_day (the_calendar inp))]"
    and m: "(d, p, r) \<in> set (map (\<lambda>r. (d', p', room_name r))
        (filter (legal inp rules st s d' p') (room_list inp)))"
    unfolding candidates_def in_concat_map by blast
  from m have "d' = d" "p' = p"
    and "\<exists>x \<in> set (room_list inp). room_name x = r \<and> legal inp rules st s d p x"
    by auto
  with d' p' show ?rhs by auto
next
  assume rhs: ?rhs
  then obtain x where x: "x \<in> set (room_list inp)" "room_name x = r" "legal inp rules st s d p x"
    by blast
  then have m: "(d, p, r) \<in> set (map (\<lambda>r. (d, p, room_name r))
      (filter (legal inp rules st s d p) (room_list inp)))"
    by force
  from rhs have "1 \<le> p" and "p \<le> periods_per_day (the_calendar inp)"
    by blast+
  then have "1 \<le> p \<and> p < Suc (periods_per_day (the_calendar inp))"
    by (simp only: less_Suc_eq_le simp_thms)
  then have pm: "p \<in> set [1..<Suc (periods_per_day (the_calendar inp))]"
    by (simp only: set_upt atLeastLessThan_iff)
  from rhs have dm: "d \<in> set (working_days (the_calendar inp))" by blast
  show ?lhs
    unfolding candidates_def in_concat_map
  proof (intro bexI)
    show "(d, p, r) \<in> set (map (\<lambda>r. (d, p, room_name r))
      (filter (legal inp rules st s d p) (room_list inp)))" by (fact m)
    show "p \<in> set [1..<Suc (periods_per_day (the_calendar inp))]" by (fact pm)
    show "d \<in> set (working_days (the_calendar inp))" by (fact dm)
  qed
qed

subsection \<open>The availability index stays consistent\<close>

lemma unmark_keys:
  assumes "distinct (map f xs)"
  shows "filter (\<lambda>k. k \<notin> set (map f (filter P xs))) (map f xs) = map f (filter (\<lambda>x. \<not> P x) xs)"
proof -
  from assms have inj: "inj_on f (set xs)" by (simp add: distinct_map)
  have "f x \<in> set (map f (filter P xs)) \<longleftrightarrow> P x" if "x \<in> set xs" for x
    using that inj by (auto dest: inj_onD)
  then have "filter ((\<lambda>k. k \<notin> set (map f (filter P xs))) \<circ> f) xs = filter (\<lambda>x. \<not> P x) xs"
    by (intro filter_cong) simp_all
  then show ?thesis by (simp add: filter_map)
qed

lemma index_ok_initial: "index_ok (initial inp)"
  by (simp add: index_ok_def initial_def)

lemma index_ok_commit:
  assumes ok: "index_ok st"
    and legal: "legal inp rules st s d p x"
  shows "index_ok (commit s d p (room_name x) st)"
proof -
  from legal have free: "\<forall>q \<in> set (required_periods s p).
      (session_teacher s, d, q) \<notin> set (teacher_busy (occupancy st)) \<and>
      (room_name x, d, q) \<notin> set (room_busy (occupancy st))"
    by (simp add: legal_def list_all_iff isTeacherFree_def isRoomFree_def)
  from ok have tb: "teacher_busy (occupancy st) = map teacher_key (committed st)"
    and rb: "room_busy (occupancy st) = map room_key (committed st)"
    and dt: "distinct (map teacher_key (committed st))"
    and dr: "distinct (map room_key (committed st))"
    by (simp_all add: index_ok_def)
  have t: "distinct (map teacher_key (committed st @ block s d p (room_name x)))"
    using dt free distinct_required_periods [of s p]
    by (auto simp: teacher_keys_block tb [symmetric] distinct_map inj_on_def)
  have r: "distinct (map room_key (committed st @ block s d p (room_name x)))"
    using dr free distinct_required_periods [of s p]
    by (auto simp: room_keys_block rb [symmetric] distinct_map inj_on_def)
  from t r tb rb show ?thesis
    by (simp add: index_ok_def commit_def)
qed

lemma index_ok_undo:
  assumes ok: "index_ok st"
  shows "index_ok (undo s st)"
proof -
  let ?gone = "filter (\<lambda>e. of_session e = s) (committed st)"
  let ?kept = "filter (\<lambda>e. of_session e \<noteq> s) (committed st)"
  from ok have tb: "teacher_busy (occupancy st) = map teacher_key (committed st)"
    and rb: "room_busy (occupancy st) = map room_key (committed st)"
    and dt: "distinct (map teacher_key (committed st))"
    and dr: "distinct (map room_key (committed st))"
    by (simp_all add: index_ok_def)
  have u: "undo s st = st\<lparr>pending := s # pending st, committed := ?kept,
         occupancy :=
           \<lparr>teacher_busy = filter (\<lambda>k. k \<notin> set (map teacher_key ?gone)) (teacher_busy (occupancy st)),
            room_busy = filter (\<lambda>k. k \<notin> set (map room_key ?gone)) (room_busy (occupancy st))\<rparr>\<rparr>"
    unfolding undo_def Let_def ..
  have u': "undo s st = st\<lparr>pending := s # pending st, committed := ?kept,
         occupancy := \<lparr>teacher_busy = map teacher_key ?kept, room_busy = map room_key ?kept\<rparr>\<rparr>"
    unfolding u tb rb unmark_keys [OF dt] unmark_keys [OF dr] ..
  from dt dr show ?thesis
    unfolding u' index_ok_def by (simp add: distinct_map_filter)
qed

lemma index_ok_give_up: "index_ok st \<Longrightarrow> index_ok (give_up s st)"
  by (simp add: index_ok_def give_up_def)

subsection \<open>Every session is pending, placed or failed\<close>










subsection \<open>The entries of a placed session form one block\<close>









subsection \<open>The run\<close>






subsection \<open>Teacher and room conflicts\<close>

lemma sharing_alone:
  assumes "distinct (map key es)"
  shows "length (sharing key es k) \<le> 1"
proof -
  from assms have "distinct (map key (sharing key es k))"
    by (simp add: sharing_def distinct_map_filter)
  moreover have "set (map key (sharing key es k)) \<subseteq> {k}"
    by (auto simp: sharing_def)
  ultimately have "length (map key (sharing key es k)) \<le> card {k}"
    by (metis distinct_card card_mono finite.emptyI finite.insertI)
  then show ?thesis by simp
qed

lemma teacher_conflicts_pass:
  "distinct (map teacher_key es) \<Longrightarrow> conflict_status (teacher_conflicts es) = PASS"
proof -
  assume "distinct (map teacher_key es)"
  then have "\<And>k. \<not> length (sharing teacher_key es k) > 1"
    using sharing_alone [of teacher_key es] by (simp add: not_less)
  then show ?thesis by (simp add: teacher_conflicts_def Let_def)
qed

lemma room_conflicts_pass:
  "distinct (map room_key es) \<Longrightarrow> conflict_status (room_conflicts es) = PASS"
proof -
  assume "distinct (map room_key es)"
  then have "\<And>k. \<not> length (sharing room_key es k) > 1"
    using sharing_alone [of room_key es] by (simp add: not_less)
  then show ?thesis by (simp add: room_conflicts_def Let_def)
qed

lemma sharing_nonempty_key:
  "1 < length (sharing key es k) \<Longrightarrow> k \<in> set (map key es)"
proof -
  assume "1 < length (sharing key es k)"
  then obtain e where "e \<in> set (sharing key es k)"
    by (cases "sharing key es k") auto
  then show ?thesis by (auto simp: sharing_def)
qed

lemma teacher_conflict_listed:
  assumes "1 < length (sharing teacher_key es (t, d, p))"
  shows "\<lparr>cv_teacher_name = t, cv_classroom_name = [], cv_day = d, cv_period = p,
           conflict_count = length (sharing teacher_key es (t, d, p)),
           conflicting_assignments = map assignment_at_teacher (sharing teacher_key es (t, d, p))\<rparr>
         \<in> set (conflict_violations (teacher_conflicts es))"
proof -
  from assms have "(t, d, p) \<in> set (filter (\<lambda>k. length (sharing teacher_key es k) > 1)
      (remdups (map teacher_key es)))"
    using sharing_nonempty_key [OF assms] by simp
  then show ?thesis
    unfolding teacher_conflicts_def Let_def conflict_report.simps set_map
    by (rule rev_image_eqI) simp
qed

lemma room_conflict_listed:
  assumes "1 < length (sharing room_key es (r, d, p))"
  shows "\<lparr>cv_teacher_name = [], cv_classroom_name = r, cv_day = d, cv_period = p,
           conflict_count = length (sharing room_key es (r, d, p)),
           conflicting_assignments = map assignment_at_room (sharing room_key es (r, d, p))\<rparr>
         \<in> set (conflict_violations (room_conflicts es))"
proof -
  from assms have "(r, d, p) \<in> set (filter (\<lambda>k. length (sharing room_key es k) > 1)
      (remdups (map room_key es)))"
    using sharing_nonempty_key [OF assms] by simp
  then show ?thesis
    unfolding room_conflicts_def Let_def conflict_report.simps set_map
    by (rule rev_image_eqI) simp
qed

lemma render_conflict_lines:
  "drop 4 (render_conflict ty v) = map assignment_line (conflicting_assignments v) \<and>
   render_conflict ty v ! 1 = ''Time: '' @ cv_day v @ '' Period '' @ string_of_nat (cv_period v)"
  by (simp add: render_conflict_def)


lemma index_ok_step:
  assumes ok: "index_ok st" and step: "step inp rules a st = Some st'"
  shows "index_ok st'"
proof (cases a)
  case (Place s d p r)
  with step have c: "(d, p, r) \<in> set (candidates inp rules st s)"
    and st': "st' = commit s d p r st"
    by (auto simp: step_def split: if_splits)
  from c obtain x where "room_name x = r" and "legal inp rules st s d p x"
    unfolding candidates_iff by blast
  with ok st' show ?thesis using index_ok_commit [of st inp rules s d p x] by simp
next
  case (Undo s)
  with step have "st' = undo s st" by (auto simp: step_def split: if_splits)
  with ok show ?thesis by (simp add: index_ok_undo)
next
  case (GiveUp s)
  with step have "st' = give_up s st" by (auto simp: step_def split: if_splits)
  with ok show ?thesis by (simp add: index_ok_give_up)
qed

lemma index_ok_engine:
  "index_ok st \<Longrightarrow> index_ok (engine inp rules strategy budget st)"
proof (induction budget arbitrary: st)
  case 0
  then show ?case by simp
next
  case (Suc budget)
  show ?case
  proof (cases "strategy st")
    case None
    with Suc.prems show ?thesis by simp
  next
    case (Some a)
    show ?thesis
    proof (cases "step inp rules a st")
      case None
      with Some Suc.prems show ?thesis by simp
    next
      case (Some st')
      with Suc.prems have "index_ok st'" by (auto intro: index_ok_step)
      then have "index_ok (engine inp rules strategy budget st')" by (rule Suc.IH)
      with Some \<open>strategy st = Some a\<close> show ?thesis by simp
    qed
  qed
qed

lemma generate_entries:
  "fst (generate inp rules strategy regenerate fresh) =
     committed (engine inp rules (strategy (if regenerate then fresh else default_seed))
       (step_budget inp) (initial inp))"
  by (simp add: generate_def Let_def finish_def)

lemma generate_failed:
  "fst (snd (generate inp rules strategy regenerate fresh)) =
     failedSessions (finish (engine inp rules (strategy (if regenerate then fresh else default_seed))
       (step_budget inp) (initial inp)))"
  by (simp add: generate_def Let_def)

lemma generated_distinct_keys:
  "distinct (map teacher_key (fst (generate inp rules strategy regenerate fresh))) \<and>
   distinct (map room_key (fst (generate inp rules strategy regenerate fresh)))"
proof -
  have "index_ok (engine inp rules (strategy (if regenerate then fresh else default_seed))
       (step_budget inp) (initial inp))"
    by (rule index_ok_engine) (rule index_ok_initial)
  then show ?thesis unfolding generate_entries by (simp add: index_ok_def)
qed

lemma small_department_timetable: "fst (generate small_department no_rules (seeded_fit small_department no_rules) False 7) =
  block (dbs_session 1) ''Mon'' 1 ''R1'' @ block (dbs_session 2) ''Mon'' 2 ''R1'' @ block dbs_lab_session ''Tue'' 1 ''Lab-1''"
  by code_simp

lemma small_department_failed:
  "snd (generate small_department no_rules (seeded_fit small_department no_rules) False 7) = ([], [])"
  by code_simp

lemma teacher_violation_sound:
  assumes "v \<in> set (conflict_violations (teacher_conflicts xs))"
  shows "conflicting_assignments v =
           map assignment_at_teacher (sharing teacher_key xs (cv_teacher_name v, cv_day v, cv_period v)) \<and>
         conflict_count v = length (conflicting_assignments v) \<and> 1 < conflict_count v"
  using assms by (auto simp: teacher_conflicts_def Let_def)

lemma room_violation_sound:
  assumes "v \<in> set (conflict_violations (room_conflicts xs))"
  shows "conflicting_assignments v =
           map assignment_at_room (sharing room_key xs (cv_classroom_name v, cv_day v, cv_period v)) \<and>
         conflict_count v = length (conflicting_assignments v) \<and> 1 < conflict_count v"
  using assms by (auto simp: room_conflicts_def Let_def)

subsection \<open>Sessions of a demand record\<close>










subsection \<open>Practical blocks\<close>










lemma block_status_iff:
  "block_status (practical_blocks xs) = FAIL \<longleftrightarrow>
     (\<exists>k \<in> set (map block_key (practical_entries xs)).
        length (block_periods xs k) \<noteq> 3 \<or> \<not> consecutive (block_periods xs k))"
proof -
  have fl: "block_flagged (block_record xs k) \<longleftrightarrow>
      length (block_periods xs k) \<noteq> 3 \<or> \<not> consecutive (block_periods xs k)" for k
    by (cases k) (simp add: block_flagged_def block_record_def)
  show ?thesis
    by (auto simp: practical_blocks_def Let_def filter_empty_conv fl)
qed

subsection \<open>Subject frequency\<close>














subsection \<open>Claim C1: no teacher and no room is booked twice\<close>

text \<open>
  Claim C1. For every generated timetable, whatever the input, the hard rules, the strategy
  and the seed, no two timetable entries share the same (teacher, day, period) and no two
  entries share the same (room, day, period), so the teacher conflict report and the room
  conflict report of the generated timetable both have status PASS. For any list of
  entries, generated or not: a (teacher, day, period) that more than one entry occupies has
  a violation record in the teacher conflict report, naming the teacher, the day and the
  period and listing every assignment there, and every violation record of the report
  lists exactly the assignments of the entries at its teacher, day and period, more than
  one of them; likewise for the room conflict report. The page shows such a record as its
  time line followed by one line per conflicting assignment.
\<close>

theorem generated_timetable_conflict_free:
  "distinct (map teacher_key (fst (generate inp rules strategy regenerate fresh))) \<and>
   distinct (map room_key (fst (generate inp rules strategy regenerate fresh))) \<and>
   conflict_status (teacher_conflicts (fst (generate inp rules strategy regenerate fresh))) = PASS \<and>
   conflict_status (room_conflicts (fst (generate inp rules strategy regenerate fresh))) = PASS \<and>
   (\<forall>xs t d p. 1 < length (sharing teacher_key xs (t, d, p)) \<longrightarrow>
      \<lparr>cv_teacher_name = t, cv_classroom_name = [], cv_day = d, cv_period = p,
       conflict_count = length (sharing teacher_key xs (t, d, p)),
       conflicting_assignments = map assignment_at_teacher (sharing teacher_key xs (t, d, p))\<rparr>
      \<in> set (conflict_violations (teacher_conflicts xs))) \<and>
   (\<forall>xs r d p. 1 < length (sharing room_key xs (r, d, p)) \<longrightarrow>
      \<lparr>cv_teacher_name = [], cv_classroom_name = r, cv_day = d, cv_period = p,
       conflict_count = length (sharing room_key xs (r, d, p)),
       conflicting_assignments = map assignment_at_room (sharing room_key xs (r, d, p))\<rparr>
      \<in> set (conflict_violations (room_conflicts xs))) \<and>
   (\<forall>xs. \<forall>v \<in> set (conflict_violations (teacher_conflicts xs)).
      conflicting_assignments v =
        map assignment_at_teacher (sharing teacher_key xs (cv_teacher_name v, cv_day v, cv_period v)) \<and>
      conflict_count v = length (conflicting_assignments v) \<and> 1 < conflict_count v \<and>
      render_conflict ''teacher_conflicts'' v ! 1 =
        ''Time: '' @ cv_day v @ '' Period '' @ string_of_nat (cv_period v) \<and>
      drop 4 (render_conflict ''teacher_conflicts'' v) = map assignment_line (conflicting_assignments v)) \<and>
   (\<forall>xs. \<forall>v \<in> set (conflict_violations (room_conflicts xs)).
      conflicting_assignments v =
        map assignment_at_room (sharing room_key xs (cv_classroom_name v, cv_day v, cv_period v)) \<and>
      conflict_count v = length (conflicting_assignments v) \<and> 1 < conflict_count v \<and>
      render_conflict ''room_conflicts'' v ! 1 =
        ''Time: '' @ cv_day v @ '' Period '' @ string_of_nat (cv_period v) \<and>
      drop 4 (render_conflict ''room_conflicts'' v) = map assignment_line (conflicting_assignments v))"
proof (intro conjI allI impI ballI)
  let ?es = "fst (generate inp rules strategy regenerate fresh)"
  from generated_distinct_keys [of inp rules strategy regenerate fresh]
  show t: "distinct (map teacher_key ?es)" and r: "distinct (map room_key ?es)"
    by blast+
  from t show "conflict_status (teacher_conflicts ?es) = PASS" by (rule teacher_conflicts_pass)
  from r show "conflict_status (room_conflicts ?es) = PASS" by (rule room_conflicts_pass)
next
  fix xs t d p
  assume "1 < length (sharing teacher_key xs (t, d, p))"
  then show "\<lparr>cv_teacher_name = t, cv_classroom_name = [], cv_day = d, cv_period = p,
       conflict_count = length (sharing teacher_key xs (t, d, p)),
       conflicting_assignments = map assignment_at_teacher (sharing teacher_key xs (t, d, p))\<rparr>
      \<in> set (conflict_violations (teacher_conflicts xs))"
    by (rule teacher_conflict_listed)
next
  fix xs r d p
  assume "1 < length (sharing room_key xs (r, d, p))"
  then show "\<lparr>cv_teacher_name = [], cv_classroom_name = r, cv_day = d, cv_period = p,
       conflict_count = length (sharing room_key xs (r, d, p)),
       conflicting_assignments = map assignment_at_room (sharing room_key xs (r, d, p))\<rparr>
      \<in> set (conflict_violations (room_conflicts xs))"
    by (rule room_conflict_listed)
next
  fix xs v
  assume v: "v \<in> set (conflict_violations (teacher_conflicts xs))"
  note s = teacher_violation_sound [OF v]
  from s show "conflicting_assignments v =
        map assignment_at_teacher (sharing teacher_key xs (cv_teacher_name v, cv_day v, cv_period v))"
    by (rule conjunct1)
  from s show "conflict_count v = length (conflicting_assignments v)" by blast
  from s show "1 < conflict_count v" by blast
  show "render_conflict ''teacher_conflicts'' v ! 1 =
        ''Time: '' @ cv_day v @ '' Period '' @ string_of_nat (cv_period v)"
    using render_conflict_lines [of "''teacher_conflicts''" v] by (rule conjunct2)
  show "drop 4 (render_conflict ''teacher_conflicts'' v) = map assignment_line (conflicting_assignments v)"
    using render_conflict_lines [of "''teacher_conflicts''" v] by (rule conjunct1)
next
  fix xs v
  assume v: "v \<in> set (conflict_violations (room_conflicts xs))"
  note s = room_violation_sound [OF v]
  from s show "conflicting_assignments v =
        map assignment_at_room (sharing room_key xs (cv_classroom_name v, cv_day v, cv_period v))"
    by (rule conjunct1)
  from s show "conflict_count v = length (conflicting_assignments v)" by blast
  from s show "1 < conflict_count v" by blast
  show "render_conflict ''room_conflicts'' v ! 1 =
        ''Time: '' @ cv_day v @ '' Period '' @ string_of_nat (cv_period v)"
    using render_conflict_lines [of "''room_conflicts''" v] by (rule conjunct2)
  show "drop 4 (render_conflict ''room_conflicts'' v) = map assignment_line (conflicting_assignments v)"
    using render_conflict_lines [of "''room_conflicts''" v] by (rule conjunct1)
qed

text \<open>
  The small department, generated with the default seed: five entries, no teacher and no
  room twice in a slot, both reports PASS. The two entries that put teacher T1 in rooms R1
  and R2 on Monday in period 1: the teacher conflict report has the record of that slot
  with both assignments, shown as the time and one line for each.
\<close>

theorem generated_timetable_conflict_free_witness:
  "length (fst (generate small_department no_rules (seeded_fit small_department no_rules) False 7)) = 5 \<and>
   distinct (map teacher_key
     (fst (generate small_department no_rules (seeded_fit small_department no_rules) False 7))) \<and>
   distinct (map room_key
     (fst (generate small_department no_rules (seeded_fit small_department no_rules) False 7))) \<and>
   conflict_status (teacher_conflicts
     (fst (generate small_department no_rules (seeded_fit small_department no_rules) False 7))) = PASS \<and>
   conflict_status (room_conflicts
     (fst (generate small_department no_rules (seeded_fit small_department no_rules) False 7))) = PASS \<and>
   1 < length (sharing teacher_key teacher_clash (''T1'', ''Mon'', 1)) \<and>
   \<lparr>cv_teacher_name = ''T1'', cv_classroom_name = [], cv_day = ''Mon'', cv_period = 1,
    conflict_count = 2,
    conflicting_assignments =
      [\<lparr>as_subject = ''DBS'', as_class_group = ''24SW-A'', as_classroom = ''R1'', as_teacher = []\<rparr>,
       \<lparr>as_subject = ''ADA'', as_class_group = ''24SW-B'', as_classroom = ''R2'', as_teacher = []\<rparr>]\<rparr>
     \<in> set (conflict_violations (teacher_conflicts teacher_clash)) \<and>
   render_conflict ''teacher_conflicts''
     \<lparr>cv_teacher_name = ''T1'', cv_classroom_name = [], cv_day = ''Mon'', cv_period = 1,
      conflict_count = 2,
      conflicting_assignments =
        [\<lparr>as_subject = ''DBS'', as_class_group = ''24SW-A'', as_classroom = ''R1'', as_teacher = []\<rparr>,
         \<lparr>as_subject = ''ADA'', as_class_group = ''24SW-B'', as_classroom = ''R2'', as_teacher = []\<rparr>]\<rparr>
     = [''Teacher: T1'', ''Time: Mon Period 1'', ''Conflicts: 2'', ''Conflicting Assignments:'',
        ''DBS - 24SW-A (R1)'', ''ADA - 24SW-B (R2)''] \<and>
   1 < length (sharing room_key room_clash (''R1'', ''Mon'', 1)) \<and>
   \<lparr>cv_teacher_name = [], cv_classroom_name = ''R1'', cv_day = ''Mon'', cv_period = 1,
    conflict_count = 2,
    conflicting_assignments =
      [\<lparr>as_subject = ''DBS'', as_class_group = ''24SW-A'', as_classroom = [], as_teacher = ''T1''\<rparr>,
       \<lparr>as_subject = ''OS'', as_class_group = ''24SW-B'', as_classroom = [], as_teacher = ''T2''\<rparr>]\<rparr>
     \<in> set (conflict_violations (room_conflicts room_clash))"
proof -
  note facts = generated_timetable_conflict_free
    [of small_department no_rules "seeded_fit small_department no_rules" False 7]
  have len: "length (fst (generate small_department no_rules
      (seeded_fit small_department no_rules) False 7)) = 5"
    unfolding small_department_timetable by (simp add: block_def required_periods_def dbs_session_def dbs_lab_session_def)
  have ts: "sharing teacher_key teacher_clash (''T1'', ''Mon'', 1) = teacher_clash"
    by (simp add: sharing_def teacher_clash_def teacher_key_def dbs_session_def ada_session_def)
  have rs: "sharing room_key room_clash (''R1'', ''Mon'', 1) = room_clash"
    by (simp add: sharing_def room_clash_def room_key_def)
  have tn: "length (sharing teacher_key teacher_clash (''T1'', ''Mon'', 1)) = 2"
    unfolding ts by (simp add: teacher_clash_def)
  have rn: "length (sharing room_key room_clash (''R1'', ''Mon'', 1)) = 2"
    unfolding rs by (simp add: room_clash_def)
  have ta: "map assignment_at_teacher (sharing teacher_key teacher_clash (''T1'', ''Mon'', 1)) =
      [\<lparr>as_subject = ''DBS'', as_class_group = ''24SW-A'', as_classroom = ''R1'', as_teacher = []\<rparr>,
       \<lparr>as_subject = ''ADA'', as_class_group = ''24SW-B'', as_classroom = ''R2'', as_teacher = []\<rparr>]"
    unfolding ts
    by (simp add: teacher_clash_def assignment_at_teacher_def dbs_session_def ada_session_def)
  have ra: "map assignment_at_room (sharing room_key room_clash (''R1'', ''Mon'', 1)) =
      [\<lparr>as_subject = ''DBS'', as_class_group = ''24SW-A'', as_classroom = [], as_teacher = ''T1''\<rparr>,
       \<lparr>as_subject = ''OS'', as_class_group = ''24SW-B'', as_classroom = [], as_teacher = ''T2''\<rparr>]"
    unfolding rs
    by (simp add: room_clash_def assignment_at_room_def dbs_session_def os_session_def)
  have tl: "1 < length (sharing teacher_key teacher_clash (''T1'', ''Mon'', 1))"
    unfolding tn by simp
  have rl: "1 < length (sharing room_key room_clash (''R1'', ''Mon'', 1))"
    unfolding rn by simp
  from facts tl have "\<lparr>cv_teacher_name = ''T1'', cv_classroom_name = [], cv_day = ''Mon'', cv_period = 1,
       conflict_count = length (sharing teacher_key teacher_clash (''T1'', ''Mon'', 1)),
       conflicting_assignments =
         map assignment_at_teacher (sharing teacher_key teacher_clash (''T1'', ''Mon'', 1))\<rparr>
      \<in> set (conflict_violations (teacher_conflicts teacher_clash))"
    by blast
  then have tv: "\<lparr>cv_teacher_name = ''T1'', cv_classroom_name = [], cv_day = ''Mon'', cv_period = 1,
    conflict_count = 2,
    conflicting_assignments =
      [\<lparr>as_subject = ''DBS'', as_class_group = ''24SW-A'', as_classroom = ''R1'', as_teacher = []\<rparr>,
       \<lparr>as_subject = ''ADA'', as_class_group = ''24SW-B'', as_classroom = ''R2'', as_teacher = []\<rparr>]\<rparr>
     \<in> set (conflict_violations (teacher_conflicts teacher_clash))"
    by (simp only: tn ta)
  from facts rl have "\<lparr>cv_teacher_name = [], cv_classroom_name = ''R1'', cv_day = ''Mon'', cv_period = 1,
       conflict_count = length (sharing room_key room_clash (''R1'', ''Mon'', 1)),
       conflicting_assignments =
         map assignment_at_room (sharing room_key room_clash (''R1'', ''Mon'', 1))\<rparr>
      \<in> set (conflict_violations (room_conflicts room_clash))"
    by blast
  then have rv: "\<lparr>cv_teacher_name = [], cv_classroom_name = ''R1'', cv_day = ''Mon'', cv_period = 1,
    conflict_count = 2,
    conflicting_assignments =
      [\<lparr>as_subject = ''DBS'', as_class_group = ''24SW-A'', as_classroom = [], as_teacher = ''T1''\<rparr>,
       \<lparr>as_subject = ''OS'', as_class_group = ''24SW-B'', as_classroom = [], as_teacher = ''T2''\<rparr>]\<rparr>
     \<in> set (conflict_violations (room_conflicts room_clash))"
    by (simp only: rn ra)
  have shown: "render_conflict ''teacher_conflicts''
     \<lparr>cv_teacher_name = ''T1'', cv_classroom_name = [], cv_day = ''Mon'', cv_period = 1,
      conflict_count = 2,
      conflicting_assignments =
        [\<lparr>as_subject = ''DBS'', as_class_group = ''24SW-A'', as_classroom = ''R1'', as_teacher = []\<rparr>,
         \<lparr>as_subject = ''ADA'', as_class_group = ''24SW-B'', as_classroom = ''R2'', as_teacher = []\<rparr>]\<rparr>
     = [''Teacher: T1'', ''Time: Mon Period 1'', ''Conflicts: 2'', ''Conflicting Assignments:'',
        ''DBS - 24SW-A (R1)'', ''ADA - 24SW-B (R2)'']"
    by code_simp
  from facts have d1: "distinct (map teacher_key
     (fst (generate small_department no_rules (seeded_fit small_department no_rules) False 7)))"
    by (rule conjunct1)
  from facts have d2: "distinct (map room_key
     (fst (generate small_department no_rules (seeded_fit small_department no_rules) False 7)))"
    by blast
  from facts have p1: "conflict_status (teacher_conflicts
     (fst (generate small_department no_rules (seeded_fit small_department no_rules) False 7))) = PASS"
    by blast
  from facts have p2: "conflict_status (room_conflicts
     (fst (generate small_department no_rules (seeded_fit small_department no_rules) False 7))) = PASS"
    by blast
  from len d1 d2 p1 p2 tl tv shown rl rv show ?thesis by (intro conjI)
qed

subsection \<open>Claim C2: practical sessions are blocks of three periods\<close>




subsection \<open>Claim C3: weekly sessions are placed or reported as failed\<close>





end
